theory Spec2Isabelle
  imports Main "HOL-Library.Sublist"
begin

section \<open>Persisted schema\<close>

text \<open>
  The tables the reservation and settlement code reads and writes, one record per row
  and one list per table (rows in insertion order). Column types follow the schema:
  ids and counts are \<open>INT\<close> (signed, no \<open>CHECK\<close> constraint, so \<open>sold_quantity\<close>
  may hold any integer), \<open>price\<close> and \<open>total_amount\<close> are \<open>DECIMAL(10,2)\<close>, kept
  here exactly as an integer number of cents, and a nullable \<open>DATETIME\<close> is an optional
  number of milliseconds since the epoch. The JavaScript works on these decimals as
  doubles; the rounding of doubles is outside this model.
\<close>

datatype order_status = Pending | Paid | Cancelled | Refunded

datatype ticket_status = Active | Used | TicketCancelled | TicketRefunded

datatype event_status = Draft | Published | EventCancelled | Completed

record user_row =
  user_id :: int
  user_email :: string
  user_role :: string

record event_row =
  event_id :: int
  organizer_id :: int
  event_title :: string
  event_status :: event_status

record tier_row =
  tier_id :: int
  tier_event_id :: int
  tier_name :: string
  tier_description :: "string option"
  price :: int
  quantity :: int
  sold_quantity :: int
  sales_start_date :: "int option"
  sales_end_date :: "int option"
  is_active :: bool

record billing =
  billingEmail :: string
  billingName :: string
  billingAddress :: "string option"
  billingCity :: "string option"
  billingState :: "string option"
  billingCountry :: "string option"
  billingPostalCode :: "string option"

record order_row =
  order_id :: int
  order_user_id :: int
  order_event_id :: int
  order_number :: string
  total_amount :: int
  status :: order_status
  stripe_payment_intent_id :: "string option"
  stripe_session_id :: "string option"
  order_billing :: billing

record ticket_row =
  ticket_id :: int
  ticket_order_id :: int
  ticket_tier_id :: int
  ticket_code :: string
  attendee_name :: string
  attendee_email :: string
  ticket_status :: ticket_status
  qr_code :: "string option"

record db =
  users :: "user_row list"
  events :: "event_row list"
  ticket_tiers :: "tier_row list"
  orders :: "order_row list"
  tickets :: "ticket_row list"

section \<open>The world a request handler runs in\<close>

text \<open>
  A handler sees the committed database, the message broker and the console. A store
  call (\<open>execute\<close>, \<open>beginTransaction\<close>, \<open>commit\<close>) may raise: \<open>fuse\<close> is the number
  of store calls that still succeed (\<open>None\<close>: the store never fails), so that every
  point at which the store can raise is a branch of the model. Unique-key violations
  and lock timeouts are store errors of this kind. Handlers run one at a time: the
  row locks of the source serialise the transactions that touch the same tier.
\<close>

text \<open>
  What can be raised: by a store call, by the payment processor's API, by reading a
  property of \<open>undefined\<close>, by the broker, and by the processor's signature check.
  \<open>errlog\<close> keeps what \<open>console.error\<close> is given: the label and the error.
\<close>

datatype exn = StoreError | StripeError | TypeError | BrokerError | SignatureVerificationError

text \<open>
  The object of a processor event, read for its \<open>id\<close> and its \<open>metadata.orderId\<close>,
  and the messages the handlers publish.
\<close>

record payment_intent =
  pi_id :: string
  pi_orderId :: int

datatype message =
  OrderConfirmation string order_row "(ticket_row \<times> string \<times> int) list" payment_intent
  | TicketGeneration int "(ticket_row \<times> string \<times> int) list"
  | PaymentConfirmation string int

record world =
  store :: db
  fuse :: "nat option"
  channel :: bool
  outbox :: "(string \<times> message) list"
  errlog :: "(string \<times> exn) list"

definition store_call :: "world \<Rightarrow> world option" where
  "store_call w =
     (case fuse w of
        None \<Rightarrow> Some w
      | Some 0 \<Rightarrow> None
      | Some (Suc n) \<Rightarrow> Some (w\<lparr>fuse := Some n\<rparr>))"

text \<open>A statement run on the pool (\<open>pool.execute\<close>) is committed at once.\<close>

definition pool_execute :: "(db \<Rightarrow> db) \<Rightarrow> world \<Rightarrow> world option" where
  "pool_execute f w =
     (case store_call w of
        None \<Rightarrow> None
      | Some w1 \<Rightarrow> Some (w1\<lparr>store := f (store w1)\<rparr>))"

text \<open>
  \<open>publishMessage\<close> raises when the broker channel is not available; otherwise the
  message is appended to its queue.
\<close>

definition publishMessage :: "string \<Rightarrow> message \<Rightarrow> world \<Rightarrow> world option" where
  "publishMessage queue m w =
     (if channel w then Some (w\<lparr>outbox := outbox w @ [(queue, m)]\<rparr>) else None)"

text \<open>
  A transaction on one connection works on its own copy \<open>tx\<close> of the database, taken
  at \<open>beginTransaction\<close>. \<open>rollback\<close> drops the copy and leaves the committed store as
  it is; \<open>commit\<close> makes the copy the committed store.
\<close>

definition rollback :: "db \<Rightarrow> world \<Rightarrow> world" where
  "rollback tx w = w"

definition commit :: "db \<Rightarrow> world \<Rightarrow> world" where
  "commit tx w = w\<lparr>store := tx\<rparr>"

text \<open>The id an \<open>AUTO_INCREMENT\<close> column gives the next row: above every id in use.\<close>

definition insertId :: "int list \<Rightarrow> int" where
  "insertId ids = fold max ids 0 + 1"

section \<open>Printing numbers in template literals\<close>

fun show_nat :: "nat \<Rightarrow> string" where
  "show_nat n =
     (if n < 10 then [char_of (48 + n)]
      else show_nat (n div 10) @ [char_of (48 + n mod 10)])"

declare show_nat.simps [simp del]

definition show_int :: "int \<Rightarrow> string" where
  "show_int i = (if i < 0 then CHR ''-'' # show_nat (nat (- i)) else show_nat (nat i))"

section \<open>Order creation: \<open>router.post('/')\<close> of the orders router\<close>

text \<open>
  The request body after JSON parsing, with \<open>tierId\<close> and \<open>quantity\<close> given as JSON
  numbers, and an optional billing field \<open>None\<close> when the body gives \<open>null\<close>. Two
  kinds of body are outside these records. The validator's \<open>isInt\<close> also lets a
  numeric string through, unconverted: on a string \<open>quantity\<close> the \<open>+\<close> of the
  availability check concatenates, and on a string \<open>tierId\<close> the \<open>===\<close> of the ticket
  loop (and of the validator's cap on the total) finds no tier. A billing field left
  out of the body is \<open>undefined\<close>, which the driver refuses as a bind parameter, so
  that the insert of the order raises.
  What the request cannot determine is in \<open>env\<close>: the clock (\<open>clock i\<close> is the value
  of \<open>new Date()\<close> in the \<open>i\<close>-th round of the validation loop), the generated order
  number, the \<open>k\<close>-th generated ticket code (the upper-cased UUID that follows
  \<open>TKT-\<close>), and what the payment processor answers when the checkout session is
  opened (\<open>None\<close>: the call raises).
\<close>

record line_item =
  tierId :: int
  li_quantity :: int
  attendeeName :: string
  attendeeEmail :: string

record order_request =
  eventId :: int
  req_tickets :: "line_item list"
  req_billing :: billing

record env =
  clock :: "nat \<Rightarrow> int"
  orderNumber :: string
  ticketCode :: "nat \<Rightarrow> string"
  checkoutUrl :: "string option"

record tier_update =
  tu_tierId :: int
  tu_quantity :: int
  tu_price :: int
  tu_name :: string

record order_data =
  d_orderId :: int
  d_orderNumber :: string
  d_checkoutUrl :: string
  d_totalAmount :: int

record response =
  code :: nat
  message :: string
  data :: "order_data option"

text \<open>
  How a stretch of a handler ends: it goes on with a value, it has answered the
  request and returns, or it raises.
\<close>

datatype 'a step = Next 'a | Reply response | Raise exn

definition reply :: "nat \<Rightarrow> string \<Rightarrow> response" where
  "reply c m = \<lparr>code = c, message = m, data = None\<rparr>"

text \<open>\<open>SELECT * FROM events WHERE id = ? AND status = "published"\<close>\<close>

definition select_published_event :: "db \<Rightarrow> int \<Rightarrow> event_row list" where
  "select_published_event d eid =
     filter (\<lambda>e. event_id e = eid \<and> event_status e = Published) (events d)"

text \<open>
  \<open>SELECT * FROM ticket_tiers WHERE id = ? AND event_id = ? AND is_active = TRUE FOR UPDATE\<close>
\<close>

definition select_tier_for_update :: "db \<Rightarrow> int \<Rightarrow> int \<Rightarrow> tier_row list" where
  "select_tier_for_update d tid eid =
     filter (\<lambda>t. tier_id t = tid \<and> tier_event_id t = eid \<and> is_active t) (ticket_tiers d)"

text \<open>
  The validation loop (\<open>for (const ticket of tickets)\<close>): one locking read per line
  item, then the availability check, the two sales-date checks, and the accumulation
  of \<open>totalAmount\<close> and \<open>ticketTierUpdates\<close>. Every early return rolls back first.
\<close>

fun validate_tickets ::
  "env \<Rightarrow> int \<Rightarrow> db \<Rightarrow> nat \<Rightarrow> line_item list \<Rightarrow> int \<times> tier_update list \<Rightarrow> world
     \<Rightarrow> (int \<times> tier_update list) step \<times> world" where
  "validate_tickets ev eid tx i [] acc w = (Next acc, w)"
| "validate_tickets ev eid tx i (ticket # rest) acc w =
     (case store_call w of
        None \<Rightarrow> (Raise StoreError, w)
      | Some w1 \<Rightarrow>
          (case select_tier_for_update tx (tierId ticket) eid of
             [] \<Rightarrow>
               (Reply (reply 400
                  (''Ticket tier '' @ show_int (tierId ticket) @ '' not found or inactive'')),
                rollback tx w1)
           | tier # _ \<Rightarrow>
               if sold_quantity tier + li_quantity ticket > quantity tier then
                 (Reply (reply 400
                    (''Not enough tickets available for '' @ tier_name tier @
                     ''. Available: '' @ show_int (quantity tier - sold_quantity tier))),
                  rollback tx w1)
               else if (case sales_start_date tier of
                          None \<Rightarrow> False | Some s \<Rightarrow> s > clock ev i) then
                 (Reply (reply 400
                    (''Sales for '' @ tier_name tier @ '' haven't started yet'')),
                  rollback tx w1)
               else if (case sales_end_date tier of
                          None \<Rightarrow> False | Some e \<Rightarrow> e < clock ev i) then
                 (Reply (reply 400 (''Sales for '' @ tier_name tier @ '' have ended'')),
                  rollback tx w1)
               else
                 validate_tickets ev eid tx (Suc i) rest
                   (fst acc + price tier * li_quantity ticket,
                    snd acc @ [\<lparr>tu_tierId = tier_id tier, tu_quantity = li_quantity ticket,
                                tu_price = price tier, tu_name = tier_name tier\<rparr>])
                   w1))"

text \<open>\<open>INSERT INTO orders (...)\<close>: the status column takes its default, \<open>pending\<close>.\<close>

definition insert_order :: "int \<Rightarrow> order_request \<Rightarrow> string \<Rightarrow> int \<Rightarrow> db \<Rightarrow> int \<times> db" where
  "insert_order uid req num amount tx =
     (let oid = insertId (map order_id (orders tx)) in
      (oid,
       tx\<lparr>orders := orders tx @
          [\<lparr>order_id = oid, order_user_id = uid, order_event_id = eventId req,
            order_number = num, total_amount = amount, status = Pending,
            stripe_payment_intent_id = None, stripe_session_id = None,
            order_billing = req_billing req\<rparr>]\<rparr>))"

text \<open>\<open>UPDATE ticket_tiers SET sold_quantity = sold_quantity + ? WHERE id = ?\<close>\<close>

definition add_sold :: "int \<Rightarrow> int \<Rightarrow> db \<Rightarrow> db" where
  "add_sold q tid tx =
     tx\<lparr>ticket_tiers :=
          map (\<lambda>t. if tier_id t = tid then t\<lparr>sold_quantity := sold_quantity t + q\<rparr> else t)
            (ticket_tiers tx)\<rparr>"

fun update_sold :: "tier_update list \<Rightarrow> db \<Rightarrow> world \<Rightarrow> db step \<times> world" where
  "update_sold [] tx w = (Next tx, w)"
| "update_sold (u # us) tx w =
     (case store_call w of
        None \<Rightarrow> (Raise StoreError, w)
      | Some w1 \<Rightarrow> update_sold us (add_sold (tu_quantity u) (tu_tierId u) tx) w1)"

text \<open>
  \<open>INSERT INTO tickets (order_id, ticket_tier_id, ticket_code, attendee_name,
  attendee_email)\<close>: the status column takes its default, \<open>active\<close>.
\<close>

definition insert_ticket :: "int \<Rightarrow> line_item \<Rightarrow> string \<Rightarrow> db \<Rightarrow> db" where
  "insert_ticket oid ticket tcode tx =
     tx\<lparr>tickets := tickets tx @
        [\<lparr>ticket_id = insertId (map ticket_id (tickets tx)), ticket_order_id = oid,
          ticket_tier_id = tierId ticket, ticket_code = tcode,
          attendee_name = attendeeName ticket, attendee_email = attendeeEmail ticket,
          ticket_status = Active, qr_code = None\<rparr>]\<rparr>"

text \<open>
  The inner loop \<open>for (let i = 0; i < ticket.quantity; i++)\<close>, run \<open>n\<close> more times;
  \<open>k\<close> counts the ticket codes generated so far. After the insert the loop reads
  \<open>tier.name\<close>, which raises a \<open>TypeError\<close> when \<open>find\<close> gave \<open>undefined\<close>.
\<close>

fun insert_seats ::
  "env \<Rightarrow> int \<Rightarrow> line_item \<Rightarrow> tier_update option \<Rightarrow> nat \<Rightarrow> nat \<Rightarrow> db \<Rightarrow> world
     \<Rightarrow> (nat \<times> db) step \<times> world" where
  "insert_seats ev oid ticket tier 0 k tx w = (Next (k, tx), w)"
| "insert_seats ev oid ticket tier (Suc n) k tx w =
     (case store_call w of
        None \<Rightarrow> (Raise StoreError, w)
      | Some w1 \<Rightarrow>
          (case tier of
             None \<Rightarrow> (Raise TypeError, w1)
           | Some t \<Rightarrow>
               insert_seats ev oid ticket tier n (Suc k)
                 (insert_ticket oid ticket (''TKT-'' @ ticketCode ev k) tx) w1))"

fun insert_tickets ::
  "env \<Rightarrow> int \<Rightarrow> tier_update list \<Rightarrow> line_item list \<Rightarrow> nat \<Rightarrow> db \<Rightarrow> world
     \<Rightarrow> db step \<times> world" where
  "insert_tickets ev oid ups [] k tx w = (Next tx, w)"
| "insert_tickets ev oid ups (ticket # rest) k tx w =
     (case insert_seats ev oid ticket (find (\<lambda>t. tu_tierId t = tierId ticket) ups)
             (nat (li_quantity ticket)) k tx w of
        (Next (k', tx'), w1) \<Rightarrow> insert_tickets ev oid ups rest k' tx' w1
      | (Reply r, w1) \<Rightarrow> (Reply r, w1)
      | (Raise e, w1) \<Rightarrow> (Raise e, w1))"

text \<open>
  The body of the \<open>try\<close> block. The event title and the line items go to the payment
  processor only; what it answers is \<open>checkoutUrl\<close>.
\<close>

definition createOrder_try :: "env \<Rightarrow> int \<Rightarrow> order_request \<Rightarrow> world \<Rightarrow> response step \<times> world" where
  "createOrder_try ev uid req w0 =
     (case store_call w0 of
        None \<Rightarrow> (Raise StoreError, w0)
      | Some w1 \<Rightarrow>
     (let tx0 = store w1 in
      case store_call w1 of
        None \<Rightarrow> (Raise StoreError, w1)
      | Some w2 \<Rightarrow>
     (case select_published_event tx0 (eventId req) of
        [] \<Rightarrow> (Reply (reply 404 ''Event not found or not available''), rollback tx0 w2)
      | event # _ \<Rightarrow>
     (case validate_tickets ev (eventId req) tx0 0 (req_tickets req) (0, []) w2 of
        (Raise e, w3) \<Rightarrow> (Raise e, w3)
      | (Reply r, w3) \<Rightarrow> (Reply r, w3)
      | (Next (totalAmount, ticketTierUpdates), w3) \<Rightarrow>
     (case store_call w3 of
        None \<Rightarrow> (Raise StoreError, w3)
      | Some w4 \<Rightarrow>
     (case insert_order uid req (orderNumber ev) totalAmount tx0 of
        (orderId, tx1) \<Rightarrow>
     (case update_sold ticketTierUpdates tx1 w4 of
        (Raise e, w5) \<Rightarrow> (Raise e, w5)
      | (Reply r, w5) \<Rightarrow> (Reply r, w5)
      | (Next tx2, w5) \<Rightarrow>
     (case insert_tickets ev orderId ticketTierUpdates (req_tickets req) 0 tx2 w5 of
        (Raise e, w6) \<Rightarrow> (Raise e, w6)
      | (Reply r, w6) \<Rightarrow> (Reply r, w6)
      | (Next tx3, w6) \<Rightarrow>
     (case store_call w6 of
        None \<Rightarrow> (Raise StoreError, w6)
      | Some w7 \<Rightarrow>
     (let w8 = commit tx3 w7 in
      case checkoutUrl ev of
        None \<Rightarrow> (Raise StripeError, w8)
      | Some url \<Rightarrow>
          (Next \<lparr>code = 201, message = ''Order created successfully'',
                 data = Some \<lparr>d_orderId = orderId, d_orderNumber = orderNumber ev,
                              d_checkoutUrl = url, d_totalAmount = totalAmount\<rparr>\<rparr>,
           w8)))))))))))"

text \<open>
  The handler: the \<open>catch\<close> block rolls back (which changes nothing once the
  transaction is committed), logs the error and answers 500.
\<close>

definition createOrder :: "env \<Rightarrow> int \<Rightarrow> order_request \<Rightarrow> world \<Rightarrow> response \<times> world" where
  "createOrder ev uid req w0 =
     (case createOrder_try ev uid req w0 of
        (Next r, w) \<Rightarrow> (r, w)
      | (Reply r, w) \<Rightarrow> (r, w)
      | (Raise e, w) \<Rightarrow>
          (reply 500 ''Failed to create order'',
           w\<lparr>errlog := errlog w @ [(''Create order error:'', e)]\<rparr>))"

section \<open>Buyer cancellation: \<open>router.post('/:id/cancel')\<close>\<close>

text \<open>\<open>SELECT * FROM orders WHERE id = ? AND user_id = ?\<close>\<close>

definition select_order_of_user :: "db \<Rightarrow> int \<Rightarrow> int \<Rightarrow> order_row list" where
  "select_order_of_user d oid uid =
     filter (\<lambda>r. order_id r = oid \<and> order_user_id r = uid) (orders d)"

text \<open>\<open>UPDATE orders SET status = ? WHERE id = ?\<close>\<close>

definition set_order_status :: "order_status \<Rightarrow> int \<Rightarrow> db \<Rightarrow> db" where
  "set_order_status s oid d =
     d\<lparr>orders := map (\<lambda>r. if order_id r = oid then r\<lparr>status := s\<rparr> else r) (orders d)\<rparr>"

text \<open>
  The statement under the comment \<open>Release reserved tickets\<close>:
  \<^verbatim>\<open>UPDATE ticket_tiers tt JOIN tickets t ON tt.id = t.ticket_tier_id
  SET tt.sold_quantity = tt.sold_quantity - 1 WHERE t.order_id = ?\<close>
  In a multiple-table \<open>UPDATE\<close> MySQL updates each row of the updated table that
  satisfies the conditions once, even when it matches the conditions several times
  (MySQL Reference Manual, \<open>UPDATE\<close> statement: ``Each matching row is updated once,
  even if it matches the conditions multiple times''): a tier joined with several
  tickets of the order is one matching tier row, and its \<open>sold_quantity\<close> goes down
  by one.
\<close>

definition release_reserved_tickets :: "int \<Rightarrow> db \<Rightarrow> db" where
  "release_reserved_tickets oid d =
     d\<lparr>ticket_tiers :=
          map (\<lambda>tt. if list_ex (\<lambda>t. ticket_tier_id t = tier_id tt \<and> ticket_order_id t = oid)
                          (tickets d)
                    then tt\<lparr>sold_quantity := sold_quantity tt - 1\<rparr> else tt)
            (ticket_tiers d)\<rparr>"

definition cancelOrder_try :: "int \<Rightarrow> int \<Rightarrow> world \<Rightarrow> response step \<times> world" where
  "cancelOrder_try uid oid w0 =
     (case store_call w0 of
        None \<Rightarrow> (Raise StoreError, w0)
      | Some w1 \<Rightarrow>
     (let tx0 = store w1 in
      case store_call w1 of
        None \<Rightarrow> (Raise StoreError, w1)
      | Some w2 \<Rightarrow>
     (case select_order_of_user tx0 oid uid of
        [] \<Rightarrow> (Reply (reply 404 ''Order not found''), rollback tx0 w2)
      | order # _ \<Rightarrow>
          if status order \<noteq> Pending then
            (Reply (reply 400 ''Only pending orders can be cancelled''), rollback tx0 w2)
          else
     (case store_call w2 of
        None \<Rightarrow> (Raise StoreError, w2)
      | Some w3 \<Rightarrow>
     (let tx1 = set_order_status Cancelled oid tx0 in
      case store_call w3 of
        None \<Rightarrow> (Raise StoreError, w3)
      | Some w4 \<Rightarrow>
     (let tx2 = release_reserved_tickets oid tx1 in
      case store_call w4 of
        None \<Rightarrow> (Raise StoreError, w4)
      | Some w5 \<Rightarrow>
          (Next (reply 200 ''Order cancelled successfully''), commit tx2 w5)))))))"

definition cancelOrder :: "int \<Rightarrow> int \<Rightarrow> world \<Rightarrow> response \<times> world" where
  "cancelOrder uid oid w0 =
     (case cancelOrder_try uid oid w0 of
        (Next r, w) \<Rightarrow> (r, w)
      | (Reply r, w) \<Rightarrow> (r, w)
      | (Raise e, w) \<Rightarrow>
          (reply 500 ''Failed to cancel order'',
           w\<lparr>errlog := errlog w @ [(''Cancel order error:'', e)]\<rparr>))"

section \<open>Payment webhook: \<open>handleWebhook\<close> and its handlers\<close>

text \<open>
  Each handler runs its statements on the pool inside one \<open>try\<close> block whose \<open>catch\<close>
  logs the error and returns normally. The \<open>_try\<close> function is the body of the block:
  it returns the error raised, if any, and the world at that point.
\<close>

text \<open>\<open>UPDATE orders SET status = "paid", stripe_payment_intent_id = ? WHERE id = ?\<close>\<close>

definition mark_paid :: "string \<Rightarrow> int \<Rightarrow> db \<Rightarrow> db" where
  "mark_paid pid oid d =
     d\<lparr>orders :=
          map (\<lambda>r. if order_id r = oid
                    then r\<lparr>status := Paid, stripe_payment_intent_id := Some pid\<rparr> else r)
            (orders d)\<rparr>"

text \<open>
  \<open>SELECT o.*, u.first_name, u.last_name, u.email, e.title FROM orders o JOIN users u
  ON o.user_id = u.id JOIN events e ON o.event_id = e.id WHERE o.id = ?\<close>
\<close>

definition select_order_details :: "db \<Rightarrow> int \<Rightarrow> (order_row \<times> user_row \<times> event_row) list" where
  "select_order_details d oid =
     concat (map (\<lambda>r. concat (map (\<lambda>u. map (\<lambda>e. (r, u, e))
                                   (filter (\<lambda>e. order_event_id r = event_id e) (events d)))
                         (filter (\<lambda>u. order_user_id r = user_id u) (users d))))
               (filter (\<lambda>r. order_id r = oid) (orders d)))"

text \<open>
  \<open>SELECT t.*, tt.name as tier_name, tt.price FROM tickets t JOIN ticket_tiers tt
  ON t.ticket_tier_id = tt.id WHERE t.order_id = ?\<close>
\<close>

definition select_ticket_details :: "db \<Rightarrow> int \<Rightarrow> (ticket_row \<times> string \<times> int) list" where
  "select_ticket_details d oid =
     concat (map (\<lambda>t. map (\<lambda>tt. (t, tier_name tt, price tt))
                         (filter (\<lambda>tt. ticket_tier_id t = tier_id tt) (ticket_tiers d)))
               (filter (\<lambda>t. ticket_order_id t = oid) (tickets d)))"

definition handlePaymentSuccess_try :: "payment_intent \<Rightarrow> world \<Rightarrow> exn option \<times> world" where
  "handlePaymentSuccess_try paymentIntent w0 =
     (let orderId = pi_orderId paymentIntent in
      case pool_execute (mark_paid (pi_id paymentIntent) orderId) w0 of
        None \<Rightarrow> (Some StoreError, w0)
      | Some w1 \<Rightarrow>
     (case store_call w1 of
        None \<Rightarrow> (Some StoreError, w1)
      | Some w2 \<Rightarrow>
     (case select_order_details (store w2) orderId of
        [] \<Rightarrow> (None, w2)
      | (order, u, e) # _ \<Rightarrow>
     (case store_call w2 of
        None \<Rightarrow> (Some StoreError, w2)
      | Some w3 \<Rightarrow>
     (let tickets = select_ticket_details (store w3) orderId in
      case publishMessage ''email_notifications''
             (OrderConfirmation (user_email u) order tickets paymentIntent) w3 of
        None \<Rightarrow> (Some BrokerError, w3)
      | Some w4 \<Rightarrow>
     (case publishMessage ''ticket_generation'' (TicketGeneration orderId tickets) w4 of
        None \<Rightarrow> (Some BrokerError, w4)
      | Some w5 \<Rightarrow> (None, w5)))))))"

definition handlePaymentSuccess :: "payment_intent \<Rightarrow> world \<Rightarrow> world" where
  "handlePaymentSuccess paymentIntent w0 =
     (case handlePaymentSuccess_try paymentIntent w0 of
        (None, w) \<Rightarrow> w
      | (Some e, w) \<Rightarrow> w\<lparr>errlog := errlog w @ [(''Error handling payment success:'', e)]\<rparr>)"

text \<open>
  What a delivery of the success event publishes when the store and the broker are
  available, as a function of the store after the status update: nothing when the
  order does not join a user and an event, else the confirmation and the
  ticket-generation request.
\<close>

definition success_messages :: "payment_intent \<Rightarrow> db \<Rightarrow> (string \<times> message) list" where
  "success_messages paymentIntent d =
     (case select_order_details d (pi_orderId paymentIntent) of
        [] \<Rightarrow> []
      | (order, u, e) # _ \<Rightarrow>
          [(''email_notifications'',
            OrderConfirmation (user_email u) order
              (select_ticket_details d (pi_orderId paymentIntent)) paymentIntent),
           (''ticket_generation'',
            TicketGeneration (pi_orderId paymentIntent)
              (select_ticket_details d (pi_orderId paymentIntent)))])"

text \<open>
  \<open>handlePaymentFailure\<close> and \<open>handlePaymentCanceled\<close> run the same two statements:
  the order is set to \<open>cancelled\<close>, then the reserved tickets are released. Neither
  statement looks at the order's current status.
\<close>

definition cancel_and_release_try :: "payment_intent \<Rightarrow> world \<Rightarrow> exn option \<times> world" where
  "cancel_and_release_try paymentIntent w0 =
     (let orderId = pi_orderId paymentIntent in
      case pool_execute (set_order_status Cancelled orderId) w0 of
        None \<Rightarrow> (Some StoreError, w0)
      | Some w1 \<Rightarrow>
     (case pool_execute (release_reserved_tickets orderId) w1 of
        None \<Rightarrow> (Some StoreError, w1)
      | Some w2 \<Rightarrow> (None, w2)))"

definition handlePaymentFailure :: "payment_intent \<Rightarrow> world \<Rightarrow> world" where
  "handlePaymentFailure paymentIntent w0 =
     (case cancel_and_release_try paymentIntent w0 of
        (None, w) \<Rightarrow> w
      | (Some e, w) \<Rightarrow> w\<lparr>errlog := errlog w @ [(''Error handling payment failure:'', e)]\<rparr>)"

definition handlePaymentCanceled :: "payment_intent \<Rightarrow> world \<Rightarrow> world" where
  "handlePaymentCanceled paymentIntent w0 =
     (case cancel_and_release_try paymentIntent w0 of
        (None, w) \<Rightarrow> w
      | (Some e, w) \<Rightarrow>
          w\<lparr>errlog := errlog w @ [(''Error handling payment cancellation:'', e)]\<rparr>)"

text \<open>\<open>UPDATE orders SET stripe_session_id = ? WHERE id = ?\<close>\<close>

definition set_session_id :: "string \<Rightarrow> int \<Rightarrow> db \<Rightarrow> db" where
  "set_session_id sid oid d =
     d\<lparr>orders :=
          map (\<lambda>r. if order_id r = oid then r\<lparr>stripe_session_id := Some sid\<rparr> else r)
            (orders d)\<rparr>"

definition handleCheckoutCompleted :: "payment_intent \<Rightarrow> world \<Rightarrow> world" where
  "handleCheckoutCompleted session w0 =
     (case pool_execute (set_session_id (pi_id session) (pi_orderId session)) w0 of
        Some w1 \<Rightarrow> w1
      | None \<Rightarrow>
          w0\<lparr>errlog := errlog w0 @ [(''Error handling checkout completion:'', StoreError)]\<rparr>)"

text \<open>
  The webhook request is the raw body and the \<open>stripe-signature\<close> header.
  \<open>stripe.webhooks.constructEvent\<close> belongs to the processor's library: it is a
  parameter, returning the parsed event or the message of the error it raises. The
  object of an event (a payment intent or a checkout session) is read only for its
  \<open>id\<close> and its \<open>metadata.orderId\<close>. No handler raises, so the \<open>catch\<close> that would
  answer 500 is never entered.
\<close>

record stripe_event =
  ev_type :: string
  ev_object :: payment_intent

record webhook_request =
  raw_body :: string
  stripe_signature :: "string option"

definition handleWebhook ::
  "(string \<Rightarrow> string option \<Rightarrow> string + stripe_event) \<Rightarrow> webhook_request \<Rightarrow> world
     \<Rightarrow> response \<times> world" where
  "handleWebhook constructEvent req w =
     (case constructEvent (raw_body req) (stripe_signature req) of
        Inl err \<Rightarrow>
          (reply 400 (''Webhook Error: '' @ err),
           w\<lparr>errlog := errlog w @
                [(''Webhook signature verification failed:'', SignatureVerificationError)]\<rparr>)
      | Inr event \<Rightarrow>
          (reply 200 ''received'',
           if ev_type event = ''payment_intent.succeeded'' then
             handlePaymentSuccess (ev_object event) w
           else if ev_type event = ''payment_intent.payment_failed'' then
             handlePaymentFailure (ev_object event) w
           else if ev_type event = ''checkout.session.completed'' then
             handleCheckoutCompleted (ev_object event) w
           else if ev_type event = ''payment_intent.canceled'' then
             handlePaymentCanceled (ev_object event) w
           else w))"

section \<open>Queue consumer: \<open>processPaymentWebhook\<close>\<close>

record payment_message =
  pm_type :: string
  pm_orderId :: int
  pm_email :: string

text \<open>The consumer rethrows what it catches: the result is the error raised, if any.\<close>

definition processPaymentWebhook :: "payment_message \<Rightarrow> world \<Rightarrow> exn option \<times> world" where
  "processPaymentWebhook m w0 =
     (if pm_type m = ''payment_success'' then
        (case pool_execute (set_order_status Paid (pm_orderId m)) w0 of
           None \<Rightarrow> (Some StoreError, w0)
         | Some w1 \<Rightarrow>
             (case publishMessage ''email_notifications''
                     (PaymentConfirmation (pm_email m) (pm_orderId m)) w1 of
                None \<Rightarrow> (Some BrokerError, w1)
              | Some w2 \<Rightarrow> (None, w2)))
      else if pm_type m = ''payment_failed'' then
        (case pool_execute (set_order_status Cancelled (pm_orderId m)) w0 of
           None \<Rightarrow> (Some StoreError, w0)
         | Some w1 \<Rightarrow>
             (case pool_execute (release_reserved_tickets (pm_orderId m)) w1 of
                None \<Rightarrow> (Some StoreError, w1)
              | Some w2 \<Rightarrow> (None, w2)))
      else if pm_type m = ''refund_processed'' then
        (case pool_execute (set_order_status Refunded (pm_orderId m)) w0 of
           None \<Rightarrow> (Some StoreError, w0)
         | Some w1 \<Rightarrow> (None, w1))
      else (None, w0))"

section \<open>Tier maintenance: \<open>router.put('/tiers/:id')\<close> and \<open>router.delete('/tiers/:id')\<close>\<close>

text \<open>
  \<open>req.user\<close> as the authentication middleware leaves it, and the fields of the
  update body (\<open>None\<close>: JSON \<open>null\<close>, which \<open>COALESCE\<close> replaces by the column's value).
\<close>

record auth_user =
  auth_id :: int
  auth_role :: string

record tier_patch =
  p_name :: "string option"
  p_description :: "string option"
  p_price :: "int option"
  p_quantity :: "int option"
  p_salesStartDate :: "int option"
  p_salesEndDate :: "int option"
  p_isActive :: "bool option"

text \<open>
  \<open>SELECT tt.*, e.organizer_id FROM ticket_tiers tt JOIN events e ON tt.event_id = e.id
  WHERE tt.id = ?\<close>
\<close>

definition select_tier_with_organizer :: "db \<Rightarrow> int \<Rightarrow> (tier_row \<times> int) list" where
  "select_tier_with_organizer d tid =
     concat (map (\<lambda>tt. map (\<lambda>e. (tt, organizer_id e))
                          (filter (\<lambda>e. tier_event_id tt = event_id e) (events d)))
               (filter (\<lambda>tt. tier_id tt = tid) (ticket_tiers d)))"

definition coalesce :: "'a option \<Rightarrow> 'a \<Rightarrow> 'a" where
  "coalesce v old = (case v of None \<Rightarrow> old | Some x \<Rightarrow> x)"

definition coalesce_null :: "'a option \<Rightarrow> 'a option \<Rightarrow> 'a option" where
  "coalesce_null v old = (case v of None \<Rightarrow> old | Some x \<Rightarrow> Some x)"

text \<open>\<open>UPDATE ticket_tiers SET name = COALESCE(?, name), ... WHERE id = ?\<close>\<close>

definition update_tier_row :: "tier_patch \<Rightarrow> int \<Rightarrow> db \<Rightarrow> db" where
  "update_tier_row p tid d =
     d\<lparr>ticket_tiers :=
          map (\<lambda>t. if tier_id t = tid then
                      t\<lparr>tier_name := coalesce (p_name p) (tier_name t),
                        tier_description := coalesce_null (p_description p) (tier_description t),
                        price := coalesce (p_price p) (price t),
                        quantity := coalesce (p_quantity p) (quantity t),
                        sales_start_date :=
                          coalesce_null (p_salesStartDate p) (sales_start_date t),
                        sales_end_date := coalesce_null (p_salesEndDate p) (sales_end_date t),
                        is_active := coalesce (p_isActive p) (is_active t)\<rparr>
                    else t)
            (ticket_tiers d)\<rparr>"

text \<open>
  \<open>DELETE FROM ticket_tiers WHERE id = ?\<close>; the foreign key of \<open>tickets\<close> on the tier
  is \<open>ON DELETE CASCADE\<close>.
\<close>

definition delete_tier_row :: "int \<Rightarrow> db \<Rightarrow> db" where
  "delete_tier_row tid d =
     d\<lparr>ticket_tiers := filter (\<lambda>t. tier_id t \<noteq> tid) (ticket_tiers d),
       tickets := filter (\<lambda>t. ticket_tier_id t \<noteq> tid) (tickets d)\<rparr>"

text \<open>
  The two handlers share their checks, in this order: the tier exists (404), the
  requester is the event's organizer or an admin (403), the tier has no sold tickets
  (400). \<open>tier_guard\<close> is that common prefix; it answers \<open>None\<close> when all pass.
\<close>

definition tier_guard :: "string \<Rightarrow> auth_user \<Rightarrow> (tier_row \<times> int) list \<Rightarrow> response option" where
  "tier_guard verb user tiers =
     (case tiers of
        [] \<Rightarrow> Some (reply 404 ''Ticket tier not found'')
      | (tier, organizer) # _ \<Rightarrow>
          if organizer \<noteq> auth_id user \<and> auth_role user \<noteq> ''admin'' then
            Some (reply 403 ''Access denied'')
          else if sold_quantity tier > 0 then
            Some (reply 400 (''Cannot '' @ verb @ '' tier with sold tickets''))
          else None)"

definition updateTier :: "auth_user \<Rightarrow> int \<Rightarrow> tier_patch \<Rightarrow> world \<Rightarrow> response \<times> world" where
  "updateTier user tid p w0 =
     (case store_call w0 of
        None \<Rightarrow>
          (reply 500 ''Failed to update ticket tier'',
           w0\<lparr>errlog := errlog w0 @ [(''Update ticket tier error:'', StoreError)]\<rparr>)
      | Some w1 \<Rightarrow>
          (case tier_guard ''modify'' user (select_tier_with_organizer (store w1) tid) of
             Some r \<Rightarrow> (r, w1)
           | None \<Rightarrow>
               (case pool_execute (update_tier_row p tid) w1 of
                  None \<Rightarrow>
                    (reply 500 ''Failed to update ticket tier'',
                     w1\<lparr>errlog := errlog w1 @ [(''Update ticket tier error:'', StoreError)]\<rparr>)
                | Some w2 \<Rightarrow> (reply 200 ''Ticket tier updated successfully'', w2))))"

definition deleteTier :: "auth_user \<Rightarrow> int \<Rightarrow> world \<Rightarrow> response \<times> world" where
  "deleteTier user tid w0 =
     (case store_call w0 of
        None \<Rightarrow>
          (reply 500 ''Failed to delete ticket tier'',
           w0\<lparr>errlog := errlog w0 @ [(''Delete ticket tier error:'', StoreError)]\<rparr>)
      | Some w1 \<Rightarrow>
          (case tier_guard ''delete'' user (select_tier_with_organizer (store w1) tid) of
             Some r \<Rightarrow> (r, w1)
           | None \<Rightarrow>
               (case pool_execute (delete_tier_row tid) w1 of
                  None \<Rightarrow>
                    (reply 500 ''Failed to delete ticket tier'',
                     w1\<lparr>errlog := errlog w1 @ [(''Delete ticket tier error:'', StoreError)]\<rparr>)
                | Some w2 \<Rightarrow> (reply 200 ''Ticket tier deleted successfully'', w2))))"

section \<open>Request validation: \<open>validateOrderCreation\<close>\<close>

text \<open>
  The chains on \<open>eventId\<close>, \<open>tickets\<close>, \<open>tickets.*.tierId\<close> and \<open>tickets.*.quantity\<close>,
  and the custom chain that caps the order total. The chains on the attendee and
  billing strings are the parameter \<open>other_chains\<close>. Every chain runs; the request is
  passed on when none of them failed. The custom chain reads the prices of the
  requested tiers by id alone and skips a line whose tier it does not find; its query
  is a store call, and a chain whose validator raises counts as failed. Amounts are in
  cents: the cap of 10000 dollars is 1000000. The source adds the line totals as
  doubles; the sum of at most twenty such products is off by far less than half a
  cent, so its comparison with the cap can differ from the exact one only for a total
  of exactly 10000 dollars, which the source may refuse.
\<close>

text \<open>\<open>SELECT id, price FROM ticket_tiers WHERE id IN (...)\<close>\<close>

definition select_tier_prices :: "db \<Rightarrow> int list \<Rightarrow> tier_row list" where
  "select_tier_prices d ids = filter (\<lambda>t. tier_id t \<in> set ids) (ticket_tiers d)"

definition order_total :: "tier_row list \<Rightarrow> line_item list \<Rightarrow> int" where
  "order_total tiers items =
     fold (\<lambda>ticket totalAmount.
             case find (\<lambda>t. tier_id t = tierId ticket) tiers of
               Some tier \<Rightarrow> totalAmount + price tier * li_quantity ticket
             | None \<Rightarrow> totalAmount)
       items 0"

definition validateOrderCreation ::
  "(order_request \<Rightarrow> bool) \<Rightarrow> order_request \<Rightarrow> world \<Rightarrow> bool \<times> world" where
  "validateOrderCreation other_chains req w =
     (let tickets = req_tickets req;
          chains_ok =
            (1 \<le> eventId req \<and> 1 \<le> length tickets \<and> length tickets \<le> 20 \<and>
             list_all (\<lambda>t. 1 \<le> tierId t) tickets \<and>
             list_all (\<lambda>t. 1 \<le> li_quantity t \<and> li_quantity t \<le> 10) tickets \<and>
             other_chains req)
      in if tickets = [] then (False, w)
         else
           (case store_call w of
              None \<Rightarrow> (False, w)
            | Some w1 \<Rightarrow>
                (chains_ok \<and>
                 \<not> order_total (select_tier_prices (store w1) (map tierId tickets)) tickets
                     > 1000000,
                 w1)))"

text \<open>
  The endpoint behind the authentication middleware: the validator, then the handler.
\<close>

definition postOrder ::
  "(order_request \<Rightarrow> bool) \<Rightarrow> env \<Rightarrow> int \<Rightarrow> order_request \<Rightarrow> world \<Rightarrow> response \<times> world" where
  "postOrder other_chains ev uid req w =
     (case validateOrderCreation other_chains req w of
        (ok, w1) \<Rightarrow>
          if ok then createOrder ev uid req w1 else (reply 400 ''Validation failed'', w1))"

section \<open>Operations on a running system\<close>

text \<open>
  The requests and messages that can follow an order's creation: further orders,
  buyer cancellations, webhook deliveries, queue messages, tier updates and deletions.
\<close>

datatype operation =
    OpCreateOrder env int order_request
  | OpCancelOrder int int
  | OpWebhook "string \<Rightarrow> string option \<Rightarrow> string + stripe_event" webhook_request
  | OpQueueMessage payment_message
  | OpUpdateTier auth_user int tier_patch
  | OpDeleteTier auth_user int

fun run :: "operation \<Rightarrow> world \<Rightarrow> world" where
  "run (OpCreateOrder ev uid req) w = snd (createOrder ev uid req w)"
| "run (OpCancelOrder uid oid) w = snd (cancelOrder uid oid w)"
| "run (OpWebhook constructEvent req) w = snd (handleWebhook constructEvent req w)"
| "run (OpQueueMessage m) w = snd (processPaymentWebhook m w)"
| "run (OpUpdateTier user tid p) w = snd (updateTier user tid p w)"
| "run (OpDeleteTier user tid) w = snd (deleteTier user tid w)"

text \<open>
  \<open>SELECT id, total_amount FROM orders\<close>, and
  \<open>SELECT total_amount FROM orders WHERE id = ?\<close> (first row).
\<close>

definition order_keys :: "db \<Rightarrow> (int \<times> int) list" where
  "order_keys d = map (\<lambda>r. (order_id r, total_amount r)) (orders d)"

definition order_total_amount :: "db \<Rightarrow> int \<Rightarrow> int option" where
  "order_total_amount d oid = map_of (order_keys d) oid"

text \<open>\<open>SELECT price, quantity FROM ticket_tiers WHERE id = ?\<close>\<close>

definition tier_terms :: "db \<Rightarrow> int \<Rightarrow> (int \<times> int) list" where
  "tier_terms d tid =
     map (\<lambda>t. (price t, quantity t)) (filter (\<lambda>t. tier_id t = tid) (ticket_tiers d))"

text \<open>
  The price of one line item as the reservation reads it: the price of the tier row
  the locking read returns, times the requested quantity.
\<close>

definition line_price :: "db \<Rightarrow> int \<Rightarrow> line_item \<Rightarrow> int" where
  "line_price d eid ticket =
     (case select_tier_for_update d (tierId ticket) eid of
        [] \<Rightarrow> 0
      | tier # _ \<Rightarrow> price tier * li_quantity ticket)"

section \<open>The validation, as the specification words it\<close>

text \<open>
  The specification validates per requested tier, in this order: the tier belongs to
  the event and is active; \<open>sold_quantity + requestedQuantity \<le> quantity\<close>; the current
  time is within \<open>[sales_start_date, sales_end_date]\<close> when set. The requested tiers
  are the tier ids of the line items in the order of their first appearance, and the
  quantity requested of a tier is the sum of its line items' quantities. The first
  failing check of the first failing tier is the violation; a capacity violation
  carries the tier's name and its remaining capacity \<open>quantity - sold_quantity\<close>.
\<close>

datatype violation =
    TierUnavailable int
  | CapacityExceeded string int
  | SalesWindowClosed string

definition in_sales_window :: "tier_row \<Rightarrow> int \<Rightarrow> bool" where
  "in_sales_window tier now =
     ((case sales_start_date tier of None \<Rightarrow> True | Some s \<Rightarrow> s \<le> now) \<and>
      (case sales_end_date tier of None \<Rightarrow> True | Some e \<Rightarrow> now \<le> e))"

definition requested_tiers :: "line_item list \<Rightarrow> int list" where
  "requested_tiers items = rev (remdups (rev (map tierId items)))"

definition requested_quantity :: "line_item list \<Rightarrow> int \<Rightarrow> int" where
  "requested_quantity items tid =
     sum_list (map li_quantity (filter (\<lambda>li. tierId li = tid) items))"

definition check_tier :: "db \<Rightarrow> int \<Rightarrow> int \<Rightarrow> line_item list \<Rightarrow> int \<Rightarrow> violation option" where
  "check_tier d eid now items tid =
     (case find (\<lambda>t. tier_id t = tid \<and> tier_event_id t = eid \<and> is_active t)
             (ticket_tiers d) of
        None \<Rightarrow> Some (TierUnavailable tid)
      | Some tier \<Rightarrow>
          if \<not> sold_quantity tier + requested_quantity items tid \<le> quantity tier then
            Some (CapacityExceeded (tier_name tier) (quantity tier - sold_quantity tier))
          else if \<not> in_sales_window tier now then Some (SalesWindowClosed (tier_name tier))
          else None)"

fun first_violation_from ::
  "db \<Rightarrow> int \<Rightarrow> (nat \<Rightarrow> int) \<Rightarrow> line_item list \<Rightarrow> nat \<Rightarrow> int list \<Rightarrow> violation option" where
  "first_violation_from d eid clk items i [] = None"
| "first_violation_from d eid clk items i (tid # rest) =
     (case check_tier d eid (clk i) items tid of
        Some v \<Rightarrow> Some v
      | None \<Rightarrow> first_violation_from d eid clk items (Suc i) rest)"

definition first_violation ::
  "db \<Rightarrow> int \<Rightarrow> (nat \<Rightarrow> int) \<Rightarrow> line_item list \<Rightarrow> violation option" where
  "first_violation d eid clk items =
     first_violation_from d eid clk items 0 (requested_tiers items)"

section \<open>Sample data\<close>

text \<open>
  One published event with two tiers: \<open>VIP\<close> (two seats, none sold, 50.00) and
  \<open>Regular\<close> (one seat, sold, 20.00); one verified buyer (user 3); the event's
  organizer is user 2. The sample requests give every billing field, a postal code
  of five digits, and attendee names and addresses that the chains accept.
\<close>

definition ex_billing :: billing where
  "ex_billing =
     \<lparr>billingEmail = ''ann@example.org'', billingName = ''Ann Lee'',
      billingAddress = Some ''123 Tech Street'', billingCity = Some ''San Francisco'',
      billingState = Some ''California'', billingCountry = Some ''USA'',
      billingPostalCode = Some ''94105''\<rparr>"

definition ex_vip :: tier_row where
  "ex_vip =
     \<lparr>tier_id = 1, tier_event_id = 1, tier_name = ''VIP'', tier_description = None,
      price = 5000, quantity = 2, sold_quantity = 0, sales_start_date = None,
      sales_end_date = None, is_active = True\<rparr>"

definition ex_regular :: tier_row where
  "ex_regular =
     \<lparr>tier_id = 2, tier_event_id = 1, tier_name = ''Regular'', tier_description = None,
      price = 2000, quantity = 1, sold_quantity = 1, sales_start_date = None,
      sales_end_date = None, is_active = True\<rparr>"

definition ex_db :: db where
  "ex_db =
     \<lparr>users = [\<lparr>user_id = 3, user_email = ''ann@example.org'', user_role = ''customer''\<rparr>],
      events = [\<lparr>event_id = 1, organizer_id = 2, event_title = ''Tech Conference'',
                 event_status = Published\<rparr>],
      ticket_tiers = [ex_vip, ex_regular], orders = [], tickets = []\<rparr>"

definition ex_world :: world where
  "ex_world = \<lparr>store = ex_db, fuse = None, channel = True, outbox = [], errlog = []\<rparr>"

definition ex_env :: env where
  "ex_env =
     \<lparr>clock = (\<lambda>i. 1000), orderNumber = ''ORD-1000-abc'', ticketCode = show_nat,
      checkoutUrl = Some ''https://checkout.example/s1''\<rparr>"

definition ex_item :: "int \<Rightarrow> int \<Rightarrow> line_item" where
  "ex_item tid q =
     \<lparr>tierId = tid, li_quantity = q, attendeeName = ''Ann Lee'',
      attendeeEmail = ''ann@example.org''\<rparr>"

text \<open>
  The chains on the attendee and billing strings, for the sample requests: their
  names are letters and a space, their addresses are well-formed, and the postal code
  is five digits, so every chain passes.
\<close>

definition ex_other_chains :: "order_request \<Rightarrow> bool" where
  "ex_other_chains req = True"

definition ex_request :: "line_item list \<Rightarrow> order_request" where
  "ex_request items = \<lparr>eventId = 1, req_tickets = items, req_billing = ex_billing\<rparr>"

text \<open>
  A stand-in for the processor's \<open>constructEvent\<close>: it accepts the signature
  \<open>good\<close> and reads the event type from the body; the event is about order 1.
\<close>

definition ex_constructEvent :: "string \<Rightarrow> string option \<Rightarrow> string + stripe_event" where
  "ex_constructEvent body sig =
     (if sig = Some ''good'' then
        Inr \<lparr>ev_type = body, ev_object = \<lparr>pi_id = ''pi_1'', pi_orderId = 1\<rparr>\<rparr>
      else Inl ''No signatures found matching the expected signature for payload'')"

definition ex_webhook :: "string \<Rightarrow> webhook_request" where
  "ex_webhook body = \<lparr>raw_body = body, stripe_signature = Some ''good''\<rparr>"

text \<open>The event's organizer, and an update of price and quantity.\<close>

definition ex_owner :: auth_user where
  "ex_owner = \<lparr>auth_id = 2, auth_role = ''organizer''\<rparr>"

definition ex_patch :: tier_patch where
  "ex_patch =
     \<lparr>p_name = None, p_description = None, p_price = Some 100, p_quantity = Some 50,
      p_salesStartDate = None, p_salesEndDate = None, p_isActive = None\<rparr>"

text \<open>The organizer raises the VIP price to 99.99.\<close>

definition ex_price_change :: operation where
  "ex_price_change =
     OpUpdateTier \<lparr>auth_id = 2, auth_role = ''organizer''\<rparr> 1
       \<lparr>p_name = None, p_description = None, p_price = Some 9999, p_quantity = None,
        p_salesStartDate = None, p_salesEndDate = None, p_isActive = None\<rparr>"

text \<open>
  Worlds reached from the sample: after the buyer reserved \<open>q\<close> VIP seats (order 1,
  pending), and after the processor's success event for a one-seat order.
\<close>

definition ex_pi :: payment_intent where
  "ex_pi = \<lparr>pi_id = ''pi_1'', pi_orderId = 1\<rparr>"

definition ex_pending_world :: "int \<Rightarrow> world" where
  "ex_pending_world q = snd (createOrder ex_env 3 (ex_request [ex_item 1 q]) ex_world)"

definition ex_paid_world :: world where
  "ex_paid_world = handlePaymentSuccess ex_pi (ex_pending_world 1)"

section \<open>What a store call and the loops of order creation leave alone\<close>

lemma store_call_frame:
  "store_call w = Some w1 \<Longrightarrow>
     store w1 = store w \<and> outbox w1 = outbox w \<and> errlog w1 = errlog w \<and> channel w1 = channel w"
  by (auto simp: store_call_def split: option.splits nat.splits)

lemma pool_execute_store:
  "pool_execute f w = Some w1 \<Longrightarrow>
     store w1 = f (store w) \<and> outbox w1 = outbox w \<and> errlog w1 = errlog w \<and>
     channel w1 = channel w"
  by (auto simp: pool_execute_def split: option.splits dest: store_call_frame)

lemma publishMessage_store: "publishMessage q m w = Some w1 \<Longrightarrow> store w1 = store w"
  by (auto simp: publishMessage_def split: if_splits)

lemma validate_tickets_frame:
  "validate_tickets ev eid tx i ts acc w = (res, w') \<Longrightarrow>
     store w' = store w \<and> outbox w' = outbox w \<and> errlog w' = errlog w \<and> channel w' = channel w"
proof (induction ts arbitrary: i acc w)
  case Nil
  then show ?case by simp
next
  case (Cons t ts)
  show ?case
  proof (cases "store_call w")
    case None
    with Cons.prems show ?thesis by simp
  next
    case (Some w1)
    note fr = store_call_frame [OF Some]
    show ?thesis
    proof (cases "select_tier_for_update tx (tierId t) eid")
      case Nil
      with Cons.prems Some fr show ?thesis by (simp add: rollback_def)
    next
      case (Cons tier rest)
      with Cons.prems Some fr Cons.IH show ?thesis
        by (auto simp: rollback_def split: if_splits)
    qed
  qed
qed

lemma validate_tickets_reply:
  "validate_tickets ev eid tx i ts acc w = (Reply r, w') \<Longrightarrow> code r = 400"
proof (induction ts arbitrary: i acc w)
  case Nil
  then show ?case by simp
next
  case (Cons t ts)
  then show ?case
    by (auto simp: reply_def split: option.splits list.splits if_splits)
qed

lemma update_sold_frame:
  "update_sold us tx w = (res, w') \<Longrightarrow>
     store w' = store w \<and> outbox w' = outbox w \<and> errlog w' = errlog w \<and> channel w' = channel w"
proof (induction us arbitrary: tx w)
  case Nil
  then show ?case by simp
next
  case (Cons u us)
  show ?case
  proof (cases "store_call w")
    case None
    with Cons.prems show ?thesis by simp
  next
    case (Some w1)
    with Cons.prems Cons.IH store_call_frame [OF Some] show ?thesis by auto
  qed
qed

lemma update_sold_no_reply: "update_sold us tx w \<noteq> (Reply r, w')"
  by (induction us arbitrary: tx w) (auto split: option.splits)

lemma insert_seats_frame:
  "insert_seats ev oid t tier n k tx w = (res, w') \<Longrightarrow>
     store w' = store w \<and> outbox w' = outbox w \<and> errlog w' = errlog w \<and> channel w' = channel w"
proof (induction n arbitrary: k tx w)
  case 0
  then show ?case by simp
next
  case (Suc n)
  show ?case
  proof (cases "store_call w")
    case None
    with Suc.prems show ?thesis by simp
  next
    case (Some w1)
    with Suc.prems Suc.IH store_call_frame [OF Some] show ?thesis
      by (cases tier) auto
  qed
qed

lemma insert_seats_no_reply: "insert_seats ev oid t tier n k tx w \<noteq> (Reply r, w')"
  by (induction n arbitrary: k tx w) (auto split: option.splits)

lemma insert_tickets_frame:
  "insert_tickets ev oid ups ts k tx w = (res, w') \<Longrightarrow>
     store w' = store w \<and> outbox w' = outbox w \<and> errlog w' = errlog w \<and> channel w' = channel w"
proof (induction ts arbitrary: k tx w)
  case Nil
  then show ?case by simp
next
  case (Cons t ts)
  obtain res1 w1 where s: "insert_seats ev oid t (find (\<lambda>u. tu_tierId u = tierId t) ups)
             (nat (li_quantity t)) k tx w = (res1, w1)"
    by (cases "insert_seats ev oid t (find (\<lambda>u. tu_tierId u = tierId t) ups)
             (nat (li_quantity t)) k tx w") auto
  note fr = insert_seats_frame [OF s]
  show ?case
  proof (cases res1)
    case (Next p)
    with Cons.prems s fr Cons.IH show ?thesis by (cases p) auto
  next
    case (Reply r)
    with Cons.prems s fr show ?thesis by auto
  next
    case (Raise e)
    with Cons.prems s fr show ?thesis by auto
  qed
qed

lemma insert_tickets_no_reply: "insert_tickets ev oid ups ts k tx w \<noteq> (Reply r, w')"
proof (induction ts arbitrary: k tx w)
  case Nil
  then show ?case by simp
next
  case (Cons t ts)
  then show ?case
    by (auto split: prod.splits step.splits simp: insert_seats_no_reply)
qed

text \<open>
  The validation loop adds up the line prices; the two loops that follow it leave the
  orders table alone.
\<close>

lemma validate_tickets_total:
  "validate_tickets ev eid tx i ts acc w = (Next acc', w') \<Longrightarrow>
     fst acc' = fst acc + sum_list (map (line_price tx eid) ts)"
proof (induction ts arbitrary: i acc w)
  case Nil
  then show ?case by auto
next
  case (Cons t ts)
  then show ?case
    by (auto simp: line_price_def split: option.splits list.splits if_splits)
qed

lemma update_sold_orders:
  "update_sold us tx w = (Next tx', w') \<Longrightarrow> orders tx' = orders tx"
  by (induction us arbitrary: tx w) (auto simp: add_sold_def split: option.splits)

lemma insert_seats_orders:
  "insert_seats ev oid t tier n k tx w = (Next (k', tx'), w') \<Longrightarrow> orders tx' = orders tx"
  by (induction n arbitrary: k tx w) (auto simp: insert_ticket_def split: option.splits)

lemma insert_tickets_orders:
  "insert_tickets ev oid ups ts k tx w = (Next tx', w') \<Longrightarrow> orders tx' = orders tx"
proof (induction ts arbitrary: k tx w)
  case Nil
  then show ?case by simp
next
  case (Cons t ts)
  then show ?case
    by (fastforce split: prod.splits step.splits dest: insert_seats_orders)
qed

text \<open>
  Writing \<open>sold_quantity\<close> changes neither the price nor the quantity of a tier, and
  the ticket inserts leave the tiers alone.
\<close>

lemma terms_map:
  assumes "\<And>t. tier_id (f t) = tier_id t \<and> price (f t) = price t \<and> quantity (f t) = quantity t"
  shows "map (\<lambda>t. (price t, quantity t)) (filter (\<lambda>t. tier_id t = tid) (map f ts))
           = map (\<lambda>t. (price t, quantity t)) (filter (\<lambda>t. tier_id t = tid) ts)"
  by (induction ts) (simp_all add: assms)

lemma terms_add_sold [simp]: "tier_terms (add_sold q tid' d) tid = tier_terms d tid"
  by (simp add: tier_terms_def add_sold_def terms_map)

lemma terms_release [simp]: "tier_terms (release_reserved_tickets oid d) tid = tier_terms d tid"
  by (simp add: tier_terms_def release_reserved_tickets_def terms_map)

lemma update_sold_terms:
  "update_sold us tx w = (Next tx', w') \<Longrightarrow> tier_terms tx' tid = tier_terms tx tid"
  by (induction us arbitrary: tx w) (auto split: option.splits)

lemma insert_seats_tiers:
  "insert_seats ev oid t tier n k tx w = (Next (k', tx'), w') \<Longrightarrow>
     ticket_tiers tx' = ticket_tiers tx"
  by (induction n arbitrary: k tx w) (auto simp: insert_ticket_def split: option.splits)

lemma insert_tickets_tiers:
  "insert_tickets ev oid ups ts k tx w = (Next tx', w') \<Longrightarrow> ticket_tiers tx' = ticket_tiers tx"
proof (induction ts arbitrary: k tx w)
  case Nil
  then show ?case by simp
next
  case (Cons t ts)
  then show ?case
    by (fastforce split: prod.splits step.splits dest: insert_seats_tiers)
qed

section \<open>Atomicity of order creation\<close>

text \<open>
  Every way the \<open>try\<close> block can end: a created order (201), whose row is the one
  \<open>insert_order\<close> appended, with the sum of the line prices as its total; an early
  return after a rollback (400 or 404, committed store untouched); or an exception,
  which leaves the committed store untouched unless it is the payment processor's,
  raised after the commit. In every case the price and the quantity of every tier
  are what they were.
\<close>

lemma createOrder_try_outcome:
  fixes ev uid req w
  defines "tx1 \<equiv> snd (insert_order uid req (orderNumber ev)
                    (sum_list (map (line_price (store w) (eventId req)) (req_tickets req)))
                    (store w))"
  assumes "createOrder_try ev uid req w = (res, w')"
  shows "errlog w' = errlog w \<and> outbox w' = outbox w \<and>
         (\<forall>tid. tier_terms (store w') tid = tier_terms (store w) tid) \<and>
         (case res of
            Next r \<Rightarrow>
              code r = 201 \<and> orders (store w') = orders tx1 \<and>
              (\<exists>url. data r =
                 Some \<lparr>d_orderId = insertId (map order_id (orders (store w))),
                       d_orderNumber = orderNumber ev, d_checkoutUrl = url,
                       d_totalAmount =
                         sum_list (map (line_price (store w) (eventId req)) (req_tickets req))\<rparr>)
          | Reply r \<Rightarrow> (code r = 400 \<or> code r = 404) \<and> store w' = store w
          | Raise e \<Rightarrow>
              (e = StripeError \<and> orders (store w') = orders tx1) \<or> store w' = store w)"
proof (cases "store_call w")
  case None
  with assms show ?thesis by (auto simp: createOrder_try_def)
next
  case w1: (Some w1)
  note f1 = store_call_frame [OF w1]
  show ?thesis
  proof (cases "store_call w1")
    case None
    with assms w1 f1 show ?thesis by (auto simp: createOrder_try_def)
  next
    case w2: (Some w2)
    note f2 = store_call_frame [OF w2]
    show ?thesis
    proof (cases "select_published_event (store w1) (eventId req)")
      case Nil
      with assms w1 w2 f1 f2 show ?thesis
        by (auto simp: createOrder_try_def rollback_def reply_def)
    next
      case (Cons event evs)
      obtain res3 w3 where
        v: "validate_tickets ev (eventId req) (store w1) 0 (req_tickets req) (0, []) w2
              = (res3, w3)"
        by (cases "validate_tickets ev (eventId req) (store w1) 0 (req_tickets req) (0, []) w2")
          auto
      note f3 = validate_tickets_frame [OF v]
      show ?thesis
      proof (cases res3)
        case (Raise e)
        then have
          "validate_tickets ev (eventId req) (store w1) 0 (req_tickets req) (0, []) w2
             = (Raise e, w3)"
          using v by simp
        with assms w1 w2 Cons f1 f2 f3 show ?thesis
          by (auto simp: createOrder_try_def)
      next
        case (Reply r)
        then have
          vr: "validate_tickets ev (eventId req) (store w1) 0 (req_tickets req) (0, []) w2
                 = (Reply r, w3)"
          using v by simp
        with assms w1 w2 Cons f1 f2 f3 validate_tickets_reply [OF vr] show ?thesis
          by (auto simp: createOrder_try_def)
      next
        case (Next acc)
        obtain totalAmount ups where acc: "acc = (totalAmount, ups)" by (cases acc) auto
        have
          vn: "validate_tickets ev (eventId req) (store w1) 0 (req_tickets req) (0, []) w2
                 = (Next (totalAmount, ups), w3)"
          using v Next acc by simp
        have tot: "totalAmount
                     = sum_list (map (line_price (store w) (eventId req)) (req_tickets req))"
          using validate_tickets_total [OF vn] f1 by simp
        show ?thesis
        proof (cases "store_call w3")
          case None
          with assms w1 w2 Cons vn f1 f2 f3 show ?thesis
            by (auto simp: createOrder_try_def)
        next
          case w4: (Some w4)
          note f4 = store_call_frame [OF w4]
          have io: "insert_order uid req (orderNumber ev) totalAmount (store w1)
                      = (insertId (map order_id (orders (store w))), tx1)"
            using tot f1 by (simp add: tx1_def insert_order_def Let_def)
          have t1: "\<And>tid. tier_terms tx1 tid = tier_terms (store w) tid"
            by (simp add: tx1_def insert_order_def Let_def tier_terms_def)
          obtain res5 w5 where u: "update_sold ups tx1 w4 = (res5, w5)"
            by (cases "update_sold ups tx1 w4") auto
          note f5 = update_sold_frame [OF u]
          show ?thesis
          proof (cases res5)
            case (Raise e)
            with assms(2) w1 w2 Cons vn w4 io u f1 f2 f3 f4 f5 show ?thesis
              by (auto simp: createOrder_try_def)
          next
            case (Reply r)
            with u update_sold_no_reply show ?thesis by blast
          next
            case n5: (Next tx2)
            have o2: "orders tx2 = orders tx1"
              using u n5 by (simp add: update_sold_orders)
            obtain res6 w6 where
              t: "insert_tickets ev (insertId (map order_id (orders (store w)))) ups
                    (req_tickets req) 0 tx2 w5 = (res6, w6)"
              by (cases "insert_tickets ev (insertId (map order_id (orders (store w)))) ups
                    (req_tickets req) 0 tx2 w5") auto
            note f6 = insert_tickets_frame [OF t]
            show ?thesis
            proof (cases res6)
              case (Raise e)
              with assms(2) w1 w2 Cons vn w4 io u n5 t f1 f2 f3 f4 f5 f6 show ?thesis
                by (auto simp: createOrder_try_def)
            next
              case (Reply r)
              with t insert_tickets_no_reply show ?thesis by blast
            next
              case n6: (Next tx3)
              have o3: "orders tx3 = orders tx1"
                using t n6 o2 by (simp add: insert_tickets_orders)
              have t3: "\<And>tid. tier_terms tx3 tid = tier_terms (store w) tid"
                using t n6 u n5 t1
                by (simp add: tier_terms_def insert_tickets_tiers update_sold_terms
                    [unfolded tier_terms_def])
              show ?thesis
              proof (cases "store_call w6")
                case None
                with assms(2) w1 w2 Cons vn w4 io u n5 t n6 f1 f2 f3 f4 f5 f6 show ?thesis
                  by (auto simp: createOrder_try_def)
              next
                case w7: (Some w7)
                note f7 = store_call_frame [OF w7]
                from assms(2) w1 w2 Cons vn w4 io u n5 t n6 w7 f1 f2 f3 f4 f5 f6 f7 o3 t3 tot
                show ?thesis
                  by (cases "checkoutUrl ev") (auto simp: createOrder_try_def commit_def Let_def)
              qed
            qed
          qed
        qed
      qed
    qed
  qed
qed

text \<open>
  Claim C2. For every reservation request, if a per-tier validation fails (the handler
  answers 400: tier missing or inactive, insufficient capacity, outside the sales
  window) or the store raises an error at any point (the handler logs a store error),
  then after the request the committed store is what it was before: no tier's
  \<open>sold_quantity\<close> has changed and no order row and no ticket row has been persisted.
\<close>

theorem createOrder_atomic:
  assumes "createOrder ev uid req w = (r, w')"
    and "code r = 400 \<or> errlog w' = errlog w @ [(''Create order error:'', StoreError)]"
  shows "store w' = store w"
proof -
  obtain res w1 where t: "createOrder_try ev uid req w = (res, w1)"
    by (cases "createOrder_try ev uid req w") auto
  note o = createOrder_try_outcome [OF t]
  show ?thesis
  proof (cases res)
    case (Next x)
    with assms t o show ?thesis by (auto simp: createOrder_def)
  next
    case (Reply x)
    with assms t o show ?thesis by (auto simp: createOrder_def)
  next
    case (Raise e)
    with assms t o show ?thesis by (auto simp: createOrder_def reply_def)
  qed
qed

text \<open>
  The scenario of the specification: a reservation over two tiers whose second tier
  has no capacity left is answered 400 and leaves the store as it was. And a store
  that fails at its sixth call, the first ticket insert, after the order row and the
  sold quantity were written in the transaction: the answer is 500 and the store is
  as it was.
\<close>

theorem createOrder_atomic_witness:
  "code (fst (createOrder ex_env 3 (ex_request [ex_item 1 1, ex_item 2 1]) ex_world)) = 400 \<and>
   store (snd (createOrder ex_env 3 (ex_request [ex_item 1 1, ex_item 2 1]) ex_world))
     = store ex_world \<and>
   code (fst (createOrder ex_env 3 (ex_request [ex_item 1 1]) (ex_world\<lparr>fuse := Some 5\<rparr>)))
     = 500 \<and>
   store (snd (createOrder ex_env 3 (ex_request [ex_item 1 1]) (ex_world\<lparr>fuse := Some 5\<rparr>)))
     = store ex_world"
proof -
  let ?a = "createOrder ex_env 3 (ex_request [ex_item 1 1, ex_item 2 1]) ex_world"
  let ?b = "createOrder ex_env 3 (ex_request [ex_item 1 1]) (ex_world\<lparr>fuse := Some 5\<rparr>)"
  have ca: "code (fst ?a) = 400" by code_simp
  have cb: "code (fst ?b) = 500" by code_simp
  have lb: "errlog (snd ?b)
              = errlog (ex_world\<lparr>fuse := Some 5\<rparr>) @ [(''Create order error:'', StoreError)]"
    by code_simp
  have pa: "?a = (fst ?a, snd ?a)" and pb: "?b = (fst ?b, snd ?b)" by simp_all
  have sa: "store (snd ?a) = store ex_world"
    using createOrder_atomic [OF pa] ca by blast
  have sb: "store (snd ?b) = store (ex_world\<lparr>fuse := Some 5\<rparr>)"
    using createOrder_atomic [OF pb] lb by blast
  from ca cb sa sb show ?thesis by simp
qed

section \<open>Inventory bounds\<close>

text \<open>
  Claim C1 says that every core operation keeps \<open>0 \<le> sold_quantity \<le> quantity\<close> on
  every tier. The code does not: the availability check of order creation compares
  each line item with the \<open>sold_quantity\<close> read before any update, so two line items
  for the same tier (two seats each, on a tier of two seats) both pass and the tier
  ends with four seats sold; and the failure handler of the webhook decrements
  whatever the order's status, so a failure event for an order the buyer has already
  cancelled takes a tier with no seat sold to \<open>-1\<close>.
\<close>

theorem createOrder_oversells:
  "map sold_quantity (ticket_tiers (store ex_world)) = [0, 1] \<and>
   map quantity (ticket_tiers (store ex_world)) = [2, 1] \<and>
   code (fst (postOrder ex_other_chains ex_env 3 (ex_request [ex_item 1 2, ex_item 1 2])
     ex_world)) = 201 \<and>
   map sold_quantity
     (ticket_tiers (store (snd (postOrder ex_other_chains ex_env 3
        (ex_request [ex_item 1 2, ex_item 1 2]) ex_world)))) = [4, 1] \<and>
   map sold_quantity
     (ticket_tiers (store (handlePaymentFailure ex_pi
        (snd (cancelOrder 3 1 (ex_pending_world 1)))))) = [-1, 1]"
  by code_simp

section \<open>Compensation\<close>

text \<open>
  Claim C4 says that compensation of a pending order with \<open>N\<close> ticket rows lowers each
  tier's \<open>sold_quantity\<close> by the number of the order's ticket rows on that tier. The
  code lowers it by one per tier: an order of two VIP seats took \<open>sold_quantity\<close> from
  0 to 2, and cancelling it (by the buyer, or by a failure event) leaves 1.
\<close>

theorem cancelOrder_releases_one_seat:
  "map sold_quantity (ticket_tiers (store (ex_pending_world 2))) = [2, 1] \<and>
   map status (orders (store (ex_pending_world 2))) = [Pending] \<and>
   map ticket_tier_id (tickets (store (ex_pending_world 2))) = [1, 1] \<and>
   code (fst (cancelOrder 3 1 (ex_pending_world 2))) = 200 \<and>
   map status (orders (store (snd (cancelOrder 3 1 (ex_pending_world 2))))) = [Cancelled] \<and>
   map sold_quantity (ticket_tiers (store (snd (cancelOrder 3 1 (ex_pending_world 2)))))
     = [1, 1] \<and>
   map sold_quantity (ticket_tiers (store (handlePaymentFailure ex_pi (ex_pending_world 2))))
     = [1, 1]"
  by code_simp

text \<open>
  Claim C5 says that a payment failure or cancellation event leaves an order that is
  not pending as it is. The code sets the order to \<open>cancelled\<close> and releases its
  tickets whatever its status: a paid order becomes cancelled, and its tier loses a
  sold seat. (The buyer's cancel route does check for \<open>pending\<close> first.)
\<close>

theorem payment_failure_cancels_paid_order:
  "map status (orders (store ex_paid_world)) = [Paid] \<and>
   map sold_quantity (ticket_tiers (store ex_paid_world)) = [1, 1] \<and>
   code (fst (handleWebhook ex_constructEvent (ex_webhook ''payment_intent.payment_failed'')
     ex_paid_world)) = 200 \<and>
   map status (orders (store (snd (handleWebhook ex_constructEvent
     (ex_webhook ''payment_intent.payment_failed'') ex_paid_world)))) = [Cancelled] \<and>
   map sold_quantity (ticket_tiers (store (snd (handleWebhook ex_constructEvent
     (ex_webhook ''payment_intent.payment_failed'') ex_paid_world)))) = [0, 1] \<and>
   map status (orders (store (snd (handleWebhook ex_constructEvent
     (ex_webhook ''payment_intent.canceled'') ex_paid_world)))) = [Cancelled]"
  by code_simp

section \<open>Replay of the success event\<close>

lemma mark_paid_idem: "mark_paid p oid (mark_paid p oid d) = mark_paid p oid d"
  by (simp add: mark_paid_def comp_def if_distrib cong: if_cong)

lemma handlePaymentSuccess_eval:
  assumes "fuse w = None" and "channel w"
  shows "handlePaymentSuccess paymentIntent w =
           w\<lparr>store := mark_paid (pi_id paymentIntent) (pi_orderId paymentIntent) (store w),
             outbox := outbox w @
               success_messages paymentIntent
                 (mark_paid (pi_id paymentIntent) (pi_orderId paymentIntent) (store w))\<rparr>"
  using assms
  by (auto simp: handlePaymentSuccess_def handlePaymentSuccess_try_def pool_execute_def
      store_call_def publishMessage_def success_messages_def Let_def split: list.splits)

text \<open>
  Claim C3 as stated fails: the success handler has no check of the order's status,
  and a second delivery for an order that is already paid publishes the confirmation
  and the ticket-generation request again.
\<close>

theorem payment_success_replay_counterexample:
  "map status (orders (store ex_paid_world)) = [Paid] \<and>
   length (outbox ex_paid_world) = 2 \<and>
   length (outbox (handlePaymentSuccess ex_pi ex_paid_world)) = 4 \<and>
   map fst (outbox (handlePaymentSuccess ex_pi ex_paid_world))
     = [''email_notifications'', ''ticket_generation'',
        ''email_notifications'', ''ticket_generation'']"
  by code_simp

text \<open>
  Claim C3, amended. With the store and the broker available, delivering the same
  payment-success event a second time changes no order, tier or ticket state (the
  store after two deliveries is the store after one), and each delivery publishes
  the messages of \<open>success_messages\<close> (the order confirmation and the
  ticket-generation request): the second delivery publishes them once more.
\<close>

theorem handlePaymentSuccess_replay:
  assumes "fuse w = None" and "channel w"
  shows "store (handlePaymentSuccess paymentIntent (handlePaymentSuccess paymentIntent w))
           = store (handlePaymentSuccess paymentIntent w) \<and>
         outbox (handlePaymentSuccess paymentIntent w)
           = outbox w @ success_messages paymentIntent
                          (store (handlePaymentSuccess paymentIntent w)) \<and>
         outbox (handlePaymentSuccess paymentIntent (handlePaymentSuccess paymentIntent w))
           = outbox w @ success_messages paymentIntent
                          (store (handlePaymentSuccess paymentIntent w))
                      @ success_messages paymentIntent
                          (store (handlePaymentSuccess paymentIntent w))"
proof -
  let ?w1 = "handlePaymentSuccess paymentIntent w"
  have e1: "?w1 = w\<lparr>store := mark_paid (pi_id paymentIntent) (pi_orderId paymentIntent) (store w),
             outbox := outbox w @
               success_messages paymentIntent
                 (mark_paid (pi_id paymentIntent) (pi_orderId paymentIntent) (store w))\<rparr>"
    by (rule handlePaymentSuccess_eval [OF assms])
  have f: "fuse ?w1 = None" and c: "channel ?w1"
    using assms by (simp_all add: e1)
  have s1: "store ?w1 = mark_paid (pi_id paymentIntent) (pi_orderId paymentIntent) (store w)"
    by (simp add: e1)
  have o1: "outbox ?w1 = outbox w @ success_messages paymentIntent (store ?w1)"
    by (simp add: e1)
  have e2: "handlePaymentSuccess paymentIntent ?w1 =
        ?w1\<lparr>store := mark_paid (pi_id paymentIntent) (pi_orderId paymentIntent) (store ?w1),
             outbox := outbox ?w1 @
               success_messages paymentIntent
                 (mark_paid (pi_id paymentIntent) (pi_orderId paymentIntent) (store ?w1))\<rparr>"
    by (rule handlePaymentSuccess_eval [OF f c])
  have m: "mark_paid (pi_id paymentIntent) (pi_orderId paymentIntent) (store ?w1) = store ?w1"
    by (simp add: s1 mark_paid_idem)
  have s2: "store (handlePaymentSuccess paymentIntent ?w1) = store ?w1"
    by (subst e2) (simp add: m)
  have o2: "outbox (handlePaymentSuccess paymentIntent ?w1)
              = outbox ?w1 @ success_messages paymentIntent (store ?w1)"
    by (subst e2) (simp add: m)
  from s2 o1 o2 show ?thesis by simp
qed

theorem handlePaymentSuccess_replay_witness:
  "store (handlePaymentSuccess ex_pi ex_paid_world) = store ex_paid_world \<and>
   length (success_messages ex_pi (store ex_paid_world)) = 2 \<and>
   outbox (handlePaymentSuccess ex_pi ex_paid_world)
     = success_messages ex_pi (store ex_paid_world)
       @ success_messages ex_pi (store ex_paid_world)"
proof -
  have f: "fuse (ex_pending_world 1) = None" by code_simp
  have c: "channel (ex_pending_world 1)" by code_simp
  have o: "outbox (ex_pending_world 1) = []" by code_simp
  have l: "length (success_messages ex_pi (store ex_paid_world)) = 2" by code_simp
  from handlePaymentSuccess_replay [OF f c, of ex_pi] o l show ?thesis
    by (simp add: ex_paid_world_def)
qed

section \<open>The webhook endpoint's answers\<close>

text \<open>
  Claim C8 as stated fails: an event whose signature does not verify is answered 400,
  not 200.
\<close>

theorem webhook_bad_signature_counterexample:
  "code (fst (handleWebhook ex_constructEvent
      \<lparr>raw_body = ''payment_intent.succeeded'', stripe_signature = None\<rparr> ex_world)) = 400"
  by code_simp

text \<open>
  Claim C8, amended. The payment webhook endpoint answers 200 when it has processed an
  event whose signature verifies without a failure (no handler logged an error), and
  400 to an event whose signature fails verification; an unsigned or mis-signed event
  causes no state change: the store and the published messages are what they were.
  Nothing is said here of the answer when the processing of a verified event fails.
\<close>

theorem handleWebhook_status:
  "(case constructEvent (raw_body req) (stripe_signature req) of
      Inl err \<Rightarrow>
        code (fst (handleWebhook constructEvent req w)) = 400 \<and>
        store (snd (handleWebhook constructEvent req w)) = store w \<and>
        outbox (snd (handleWebhook constructEvent req w)) = outbox w
    | Inr event \<Rightarrow>
        (errlog (snd (handleWebhook constructEvent req w)) = errlog w \<longrightarrow>
         code (fst (handleWebhook constructEvent req w)) = 200))"
  by (simp add: handleWebhook_def reply_def split: sum.splits)

text \<open>
  On the sample: an unsigned success event for the pending order 1 is answered 400
  and changes nothing; the same event, signed, is processed without an error (the
  order is paid, nothing is logged) and answered 200.
\<close>

theorem handleWebhook_status_witness:
  "code (fst (handleWebhook ex_constructEvent
      \<lparr>raw_body = ''payment_intent.succeeded'', stripe_signature = None\<rparr>
      (ex_pending_world 1))) = 400 \<and>
   store (snd (handleWebhook ex_constructEvent
      \<lparr>raw_body = ''payment_intent.succeeded'', stripe_signature = None\<rparr>
      (ex_pending_world 1))) = store (ex_pending_world 1) \<and>
   outbox (snd (handleWebhook ex_constructEvent
      \<lparr>raw_body = ''payment_intent.succeeded'', stripe_signature = None\<rparr>
      (ex_pending_world 1))) = outbox (ex_pending_world 1) \<and>
   errlog (snd (handleWebhook ex_constructEvent (ex_webhook ''payment_intent.succeeded'')
      (ex_pending_world 1))) = errlog (ex_pending_world 1) \<and>
   map status (orders (store (snd (handleWebhook ex_constructEvent
      (ex_webhook ''payment_intent.succeeded'') (ex_pending_world 1))))) = [Paid] \<and>
   code (fst (handleWebhook ex_constructEvent (ex_webhook ''payment_intent.succeeded'')
      (ex_pending_world 1))) = 200"
proof -
  have bad: "ex_constructEvent ''payment_intent.succeeded'' None
               = Inl ''No signatures found matching the expected signature for payload''"
    by (simp add: ex_constructEvent_def)
  have good: "ex_constructEvent ''payment_intent.succeeded'' (Some ''good'')
                = Inr \<lparr>ev_type = ''payment_intent.succeeded'', ev_object = ex_pi\<rparr>"
    by (simp add: ex_constructEvent_def ex_pi_def)
  have quiet: "errlog (snd (handleWebhook ex_constructEvent
                  (ex_webhook ''payment_intent.succeeded'') (ex_pending_world 1)))
                = errlog (ex_pending_world 1)"
    by code_simp
  have paid: "map status (orders (store (snd (handleWebhook ex_constructEvent
                 (ex_webhook ''payment_intent.succeeded'') (ex_pending_world 1))))) = [Paid]"
    by code_simp
  from handleWebhook_status [of ex_constructEvent
      "\<lparr>raw_body = ''payment_intent.succeeded'', stripe_signature = None\<rparr>"
      "ex_pending_world 1"]
    handleWebhook_status [of ex_constructEvent "ex_webhook ''payment_intent.succeeded''"
      "ex_pending_world 1"]
    bad good quiet paid
  show ?thesis by (simp add: ex_webhook_def)
qed

section \<open>Tiers with sold tickets\<close>

text \<open>
  No statement but the tier update writes a price or a quantity, and the update and
  the delete touch the rows of their own tier id only.
\<close>

lemma terms_set_order_status [simp]:
  "tier_terms (set_order_status s oid d) tid = tier_terms d tid"
  by (simp add: tier_terms_def set_order_status_def)

lemma terms_mark_paid [simp]: "tier_terms (mark_paid p oid d) tid = tier_terms d tid"
  by (simp add: tier_terms_def mark_paid_def)

lemma terms_set_session_id [simp]: "tier_terms (set_session_id sid oid d) tid = tier_terms d tid"
  by (simp add: tier_terms_def set_session_id_def)

lemma filter_map_if_other:
  assumes "tid' \<noteq> tid" and "\<And>t. tier_id (g t) = tier_id t"
  shows "filter (\<lambda>t. tier_id t = tid) (map (\<lambda>t. if tier_id t = tid' then g t else t) ts)
           = filter (\<lambda>t. tier_id t = tid) ts"
  using assms by (induction ts) auto

lemma filter_filter_other:
  assumes "tid' \<noteq> tid"
  shows "filter (\<lambda>t. tier_id t = tid) (filter (\<lambda>t. tier_id t \<noteq> tid') ts)
           = filter (\<lambda>t. tier_id t = tid) ts"
  using assms by (induction ts) auto

lemma terms_update_other:
  "tid' \<noteq> tid \<Longrightarrow> tier_terms (update_tier_row p tid' d) tid = tier_terms d tid"
  by (simp add: tier_terms_def update_tier_row_def filter_map_if_other)

lemma terms_delete_other:
  "tid' \<noteq> tid \<Longrightarrow> tier_terms (delete_tier_row tid' d) tid = tier_terms d tid"
  by (simp add: tier_terms_def delete_tier_row_def filter_filter_other del: filter_filter)

lemma terms_handlePaymentSuccess:
  "tier_terms (store (handlePaymentSuccess paymentIntent w)) tid = tier_terms (store w) tid"
  by (auto simp: handlePaymentSuccess_def handlePaymentSuccess_try_def Let_def
      split: option.splits list.splits prod.splits
      dest!: pool_execute_store store_call_frame publishMessage_store)

lemma terms_cancel_and_release:
  "tier_terms (store (snd (cancel_and_release_try paymentIntent w))) tid
     = tier_terms (store w) tid"
  by (auto simp: cancel_and_release_try_def Let_def
      split: option.splits dest!: pool_execute_store)

lemma terms_handlePaymentFailure:
  "tier_terms (store (handlePaymentFailure paymentIntent w)) tid = tier_terms (store w) tid"
  using terms_cancel_and_release [of paymentIntent w tid]
  by (auto simp: handlePaymentFailure_def split: prod.splits option.splits)

lemma terms_handlePaymentCanceled:
  "tier_terms (store (handlePaymentCanceled paymentIntent w)) tid = tier_terms (store w) tid"
  using terms_cancel_and_release [of paymentIntent w tid]
  by (auto simp: handlePaymentCanceled_def split: prod.splits option.splits)

lemma terms_handleCheckoutCompleted:
  "tier_terms (store (handleCheckoutCompleted session w)) tid = tier_terms (store w) tid"
  by (auto simp: handleCheckoutCompleted_def split: option.splits dest!: pool_execute_store)

lemma terms_handleWebhook:
  "tier_terms (store (snd (handleWebhook constructEvent req w))) tid = tier_terms (store w) tid"
  by (simp add: handleWebhook_def terms_handlePaymentSuccess terms_handlePaymentFailure
      terms_handlePaymentCanceled terms_handleCheckoutCompleted split: sum.splits)

lemma terms_processPaymentWebhook:
  "tier_terms (store (snd (processPaymentWebhook m w))) tid = tier_terms (store w) tid"
  by (auto simp: processPaymentWebhook_def
      split: option.splits dest!: pool_execute_store publishMessage_store)

lemma terms_cancelOrder:
  "tier_terms (store (snd (cancelOrder uid oid w))) tid = tier_terms (store w) tid"
  by (auto simp: cancelOrder_def cancelOrder_try_def Let_def rollback_def commit_def
      split: option.splits list.splits dest!: store_call_frame)

lemma terms_createOrder:
  "tier_terms (store (snd (createOrder ev uid req w))) tid = tier_terms (store w) tid"
proof -
  obtain res w1 where t: "createOrder_try ev uid req w = (res, w1)"
    by (cases "createOrder_try ev uid req w") auto
  from createOrder_try_outcome [OF t]
  have "tier_terms (store w1) tid = tier_terms (store w) tid" by blast
  with t show ?thesis by (cases res) (simp_all add: createOrder_def)
qed

lemma terms_updateTier_other:
  "tid' \<noteq> tid \<Longrightarrow>
     tier_terms (store (snd (updateTier user tid' p w))) tid = tier_terms (store w) tid"
  by (auto simp: updateTier_def terms_update_other split: option.splits
      dest!: pool_execute_store store_call_frame)

lemma terms_deleteTier_other:
  "tid' \<noteq> tid \<Longrightarrow>
     tier_terms (store (snd (deleteTier user tid' w))) tid = tier_terms (store w) tid"
  by (auto simp: deleteTier_def terms_delete_other split: option.splits
      dest!: pool_execute_store store_call_frame)

lemma tier_guard_sold:
  assumes "sold_quantity tier > 0"
  shows "tier_guard verb user ((tier, organizer) # rest) =
           Some (if organizer = auth_id user \<or> auth_role user = ''admin''
                 then reply 400 (''Cannot '' @ verb @ '' tier with sold tickets'')
                 else reply 403 ''Access denied'')"
  using assms by (auto simp: tier_guard_def)

lemma sold_tier_edit_refused:
  assumes "select_tier_with_organizer (store w) tid = (tier, organizer) # rest"
    and "sold_quantity tier > 0"
  shows "store (snd (updateTier user tid p w)) = store w \<and>
         store (snd (deleteTier user tid w)) = store w \<and>
         code (fst (updateTier user tid p w))
           = (if fuse w = Some 0 then 500
              else if organizer = auth_id user \<or> auth_role user = ''admin'' then 400 else 403) \<and>
         code (fst (deleteTier user tid w))
           = (if fuse w = Some 0 then 500
              else if organizer = auth_id user \<or> auth_role user = ''admin'' then 400 else 403)"
proof (cases "store_call w")
  case None
  then have "fuse w = Some 0"
    by (auto simp: store_call_def split: option.splits nat.splits)
  with None show ?thesis by (simp add: updateTier_def deleteTier_def reply_def)
next
  case (Some w1)
  then have nz: "fuse w \<noteq> Some 0"
    by (auto simp: store_call_def split: option.splits nat.splits)
  from store_call_frame [OF Some] have s: "store w1 = store w" by simp
  from Some s nz assms show ?thesis
    by (simp add: updateTier_def deleteTier_def tier_guard_sold reply_def)
qed

lemma sold_tier_terms_run:
  assumes "select_tier_with_organizer (store w) tid = (tier, organizer) # rest"
    and "sold_quantity tier > 0"
  shows "tier_terms (store (run op w)) tid = tier_terms (store w) tid"
proof (cases op)
  case (OpUpdateTier user tid' p)
  show ?thesis
  proof (cases "tid' = tid")
    case True
    with OpUpdateTier sold_tier_edit_refused [OF assms, of user p] show ?thesis by simp
  next
    case False
    with OpUpdateTier show ?thesis by (simp add: terms_updateTier_other)
  qed
next
  case (OpDeleteTier user tid')
  show ?thesis
  proof (cases "tid' = tid")
    case True
    with OpDeleteTier sold_tier_edit_refused [OF assms, of user] show ?thesis by simp
  next
    case False
    with OpDeleteTier show ?thesis by (simp add: terms_deleteTier_other)
  qed
qed (simp_all add: terms_createOrder terms_cancelOrder terms_handleWebhook
    terms_processPaymentWebhook)

text \<open>
  Claim C9 as stated fails: the handlers check the requester before the sold
  quantity, so an organizer who does not own the event is answered 403, not 400.
\<close>

theorem tier_update_forbidden_counterexample:
  "sold_quantity ex_regular = 1 \<and>
   code (fst (updateTier \<lparr>auth_id = 7, auth_role = ''organizer''\<rparr> 2
      \<lparr>p_name = None, p_description = None, p_price = Some 100, p_quantity = None,
       p_salesStartDate = None, p_salesEndDate = None, p_isActive = None\<rparr> ex_world)) = 403 \<and>
   code (fst (deleteTier \<lparr>auth_id = 7, auth_role = ''organizer''\<rparr> 2 ex_world)) = 403"
  by code_simp

text \<open>
  Claim C9, amended. A ticket tier with \<open>sold_quantity > 0\<close> can be neither updated
  nor deleted: every tier-update and tier-delete request against such a tier leaves
  the store, and so the tier row with its price and quantity, unchanged; the endpoint
  answers 400 when the requester is the event's organizer or an admin, 403 to anyone
  else, and 500 when the lookup itself fails. So the tier's price and capacity are
  frozen while \<open>sold_quantity > 0\<close>: no operation changes them.
\<close>

theorem sold_tier_is_frozen:
  assumes "select_tier_with_organizer (store w) tid = (tier, organizer) # rest"
    and "sold_quantity tier > 0"
  shows "store (snd (updateTier user tid p w)) = store w \<and>
         store (snd (deleteTier user tid w)) = store w \<and>
         code (fst (updateTier user tid p w))
           = (if fuse w = Some 0 then 500
              else if organizer = auth_id user \<or> auth_role user = ''admin'' then 400 else 403) \<and>
         code (fst (deleteTier user tid w))
           = (if fuse w = Some 0 then 500
              else if organizer = auth_id user \<or> auth_role user = ''admin'' then 400 else 403) \<and>
         (\<forall>op. tier_terms (store (run op w)) tid = tier_terms (store w) tid)"
  using sold_tier_edit_refused [OF assms] sold_tier_terms_run [OF assms] by simp

theorem sold_tier_is_frozen_witness:
  "store (snd (updateTier ex_owner 2 ex_patch ex_world)) = store ex_world \<and>
   store (snd (deleteTier ex_owner 2 ex_world)) = store ex_world \<and>
   code (fst (updateTier ex_owner 2 ex_patch ex_world)) = 400 \<and>
   code (fst (deleteTier ex_owner 2 ex_world)) = 400 \<and>
   tier_terms (store (run (OpUpdateTier ex_owner 2 ex_patch) ex_world)) 2 = [(2000, 1)] \<and>
   tier_terms (store (run (OpCancelOrder 3 1) ex_world)) 2 = [(2000, 1)]"
proof -
  have s: "select_tier_with_organizer (store ex_world) 2 = (ex_regular, 2) # []"
    by code_simp
  have q: "sold_quantity ex_regular > 0" by code_simp
  have f: "fuse ex_world \<noteq> Some 0" by code_simp
  have o: "auth_id ex_owner = 2" by code_simp
  have t: "tier_terms (store ex_world) 2 = [(2000, 1)]" by code_simp
  note th = sold_tier_is_frozen [OF s q, of ex_owner ex_patch]
  from th t have r: "\<And>op. tier_terms (store (run op ex_world)) 2 = [(2000, 1)]"
    by simp
  from th f o r [of "OpUpdateTier ex_owner 2 ex_patch"] r [of "OpCancelOrder 3 1"]
  show ?thesis by (simp del: run.simps)
qed

section \<open>The validation of a request that names a tier twice\<close>

text \<open>
  Claim C7 says that the handler validates each requested tier, its second check being
  \<open>sold_quantity + requestedQuantity \<le> quantity\<close>, and that the first failing check
  aborts the transaction with a client error. The code runs the check once per line
  item, each time against the \<open>sold_quantity\<close> it read before any update. For one
  line of three VIP seats the code and the specification agree: a 400 that names the
  tier and the two seats that remain. For two lines of two VIP seats each, the
  specification's check of the tier fails (four seats requested, two remain), and
  the code answers 201.
\<close>

theorem validation_passes_repeated_tier:
  "first_violation (store ex_world) 1 (clock ex_env) [ex_item 1 3]
     = Some (CapacityExceeded ''VIP'' 2) \<and>
   fst (createOrder ex_env 3 (ex_request [ex_item 1 3]) ex_world)
     = \<lparr>code = 400, message = ''Not enough tickets available for VIP. Available: 2'',
        data = None\<rparr> \<and>
   requested_quantity [ex_item 1 2, ex_item 1 2] 1 = 4 \<and>
   first_violation (store ex_world) 1 (clock ex_env) [ex_item 1 2, ex_item 1 2]
     = Some (CapacityExceeded ''VIP'' 2) \<and>
   code (fst (createOrder ex_env 3 (ex_request [ex_item 1 2, ex_item 1 2]) ex_world)) = 201 \<and>
   map sold_quantity
     (ticket_tiers (store (snd (createOrder ex_env 3 (ex_request [ex_item 1 2, ex_item 1 2])
        ex_world)))) = [4, 1]"
  by code_simp

section \<open>The price snapshot of an order\<close>

lemma fold_max_ge: "(a::int) \<le> fold max ids a"
proof (induction ids arbitrary: a)
  case Nil
  show ?case by simp
next
  case (Cons x ids)
  have "a \<le> max x a" by simp
  also have "max x a \<le> fold max ids (max x a)" by (rule Cons.IH)
  finally show ?case by simp
qed

lemma fold_max_mem: "x \<in> set ids \<Longrightarrow> (x::int) \<le> fold max ids a"
proof (induction ids arbitrary: a)
  case Nil
  then show ?case by simp
next
  case (Cons y ids)
  show ?case
  proof (cases "x = y")
    case True
    have "x \<le> max y a" using True by simp
    also have "max y a \<le> fold max ids (max y a)" by (rule fold_max_ge)
    finally show ?thesis by simp
  next
    case False
    with Cons.prems have "x \<in> set ids" by simp
    then show ?thesis using Cons.IH by simp
  qed
qed

lemma insertId_fresh: "insertId ids \<notin> set ids"
proof
  assume "insertId ids \<in> set ids"
  then have "insertId ids \<le> fold max ids 0" by (rule fold_max_mem)
  then show False by (simp add: insertId_def)
qed

lemma map_of_prefix:
  assumes "prefix xs ys" and "map_of xs k = Some v"
  shows "map_of ys k = Some v"
proof -
  from assms(1) obtain zs where "ys = xs @ zs" by (auto simp: prefix_def)
  with assms(2) show ?thesis by (simp add: map_add_Some_iff)
qed

lemma keys_set_order_status [simp]: "order_keys (set_order_status s oid d) = order_keys d"
  by (simp add: order_keys_def set_order_status_def comp_def if_distrib cong: if_cong)

lemma keys_mark_paid [simp]: "order_keys (mark_paid p oid d) = order_keys d"
  by (simp add: order_keys_def mark_paid_def comp_def if_distrib cong: if_cong)

lemma keys_set_session_id [simp]: "order_keys (set_session_id sid oid d) = order_keys d"
  by (simp add: order_keys_def set_session_id_def comp_def if_distrib cong: if_cong)

lemma keys_release [simp]: "order_keys (release_reserved_tickets oid d) = order_keys d"
  by (simp add: order_keys_def release_reserved_tickets_def)

lemma keys_update_tier_row [simp]: "order_keys (update_tier_row p tid d) = order_keys d"
  by (simp add: order_keys_def update_tier_row_def)

lemma keys_delete_tier_row [simp]: "order_keys (delete_tier_row tid d) = order_keys d"
  by (simp add: order_keys_def delete_tier_row_def)

lemma keys_handlePaymentSuccess:
  "order_keys (store (handlePaymentSuccess paymentIntent w)) = order_keys (store w)"
  by (auto simp: handlePaymentSuccess_def handlePaymentSuccess_try_def Let_def
      split: option.splits list.splits prod.splits
      dest!: pool_execute_store store_call_frame publishMessage_store)

lemma keys_cancel_and_release:
  "order_keys (store (snd (cancel_and_release_try paymentIntent w))) = order_keys (store w)"
  by (auto simp: cancel_and_release_try_def Let_def
      split: option.splits dest!: pool_execute_store)

lemma keys_handlePaymentFailure:
  "order_keys (store (handlePaymentFailure paymentIntent w)) = order_keys (store w)"
  using keys_cancel_and_release [of paymentIntent w]
  by (auto simp: handlePaymentFailure_def split: prod.splits option.splits)

lemma keys_handlePaymentCanceled:
  "order_keys (store (handlePaymentCanceled paymentIntent w)) = order_keys (store w)"
  using keys_cancel_and_release [of paymentIntent w]
  by (auto simp: handlePaymentCanceled_def split: prod.splits option.splits)

lemma keys_handleCheckoutCompleted:
  "order_keys (store (handleCheckoutCompleted session w)) = order_keys (store w)"
  by (auto simp: handleCheckoutCompleted_def split: option.splits dest!: pool_execute_store)

lemma keys_handleWebhook:
  "order_keys (store (snd (handleWebhook constructEvent req w))) = order_keys (store w)"
  by (simp add: handleWebhook_def keys_handlePaymentSuccess keys_handlePaymentFailure
      keys_handlePaymentCanceled keys_handleCheckoutCompleted split: sum.splits)

lemma keys_processPaymentWebhook:
  "order_keys (store (snd (processPaymentWebhook m w))) = order_keys (store w)"
  by (auto simp: processPaymentWebhook_def
      split: option.splits dest!: pool_execute_store publishMessage_store)

lemma keys_updateTier:
  "order_keys (store (snd (updateTier user tid p w))) = order_keys (store w)"
  by (auto simp: updateTier_def split: option.splits
      dest!: pool_execute_store store_call_frame)

lemma keys_deleteTier:
  "order_keys (store (snd (deleteTier user tid w))) = order_keys (store w)"
  by (auto simp: deleteTier_def split: option.splits
      dest!: pool_execute_store store_call_frame)

lemma keys_cancelOrder:
  "order_keys (store (snd (cancelOrder uid oid w))) = order_keys (store w)"
  by (auto simp: cancelOrder_def cancelOrder_try_def Let_def rollback_def commit_def
      split: option.splits list.splits dest!: store_call_frame)

lemma keys_createOrder:
  "prefix (order_keys (store w)) (order_keys (store (snd (createOrder ev uid req w))))"
proof -
  obtain res w1 where t: "createOrder_try ev uid req w = (res, w1)"
    by (cases "createOrder_try ev uid req w") auto
  note o = createOrder_try_outcome [OF t]
  show ?thesis
  proof (cases res)
    case (Next r)
    with t o show ?thesis
      by (auto simp: createOrder_def order_keys_def insert_order_def Let_def)
  next
    case (Reply r)
    with t o show ?thesis by (auto simp: createOrder_def)
  next
    case (Raise e)
    with t o show ?thesis
      by (auto simp: createOrder_def order_keys_def insert_order_def Let_def)
  qed
qed

lemma keys_run: "prefix (order_keys (store w)) (order_keys (store (run op w)))"
  by (cases op)
    (simp_all add: keys_createOrder keys_cancelOrder keys_handleWebhook
      keys_processPaymentWebhook keys_updateTier keys_deleteTier)

lemma keys_fold_run: "prefix (order_keys (store w)) (order_keys (store (fold run ops w)))"
proof (induction ops arbitrary: w)
  case Nil
  show ?case by simp
next
  case (Cons op ops)
  have "prefix (order_keys (store w)) (order_keys (store (run op w)))" by (rule keys_run)
  also have "prefix (order_keys (store (run op w)))
               (order_keys (store (fold run ops (run op w))))"
    by (rule Cons.IH)
  finally show ?case by simp
qed

text \<open>
  Claim C6. For every successfully created order, its \<open>total_amount\<close> (the stored
  column and the amount returned to the caller) is the sum over the requested line
  items of the tier price read under the row lock in that reservation transaction
  times the requested quantity, and no sequence of later operations (further orders,
  cancellations, webhook deliveries, queue messages, tier updates and deletions)
  modifies that order's \<open>total_amount\<close>. (The periodic clean-up, which deletes
  cancelled orders older than thirty days, removes rows and rewrites none; it is not
  among the operations.)
\<close>

theorem total_amount_is_reservation_price:
  assumes "createOrder ev uid req w = (r, w')" and "code r = 201"
  shows "\<exists>dat. data r = Some dat \<and>
           d_totalAmount dat
             = sum_list (map (line_price (store w) (eventId req)) (req_tickets req)) \<and>
           (\<forall>ops. order_total_amount (store (fold run ops w')) (d_orderId dat)
                    = Some (d_totalAmount dat))"
proof -
  let ?S = "sum_list (map (line_price (store w) (eventId req)) (req_tickets req))"
  let ?oid = "insertId (map order_id (orders (store w)))"
  obtain res w1 where t: "createOrder_try ev uid req w = (res, w1)"
    by (cases "createOrder_try ev uid req w") auto
  note o = createOrder_try_outcome [OF t]
  have res: "res = Next r" and w1: "w1 = w'"
    using assms t o by (cases res; auto simp: createOrder_def reply_def)+
  from o res w1 obtain url where
    d: "data r = Some \<lparr>d_orderId = ?oid, d_orderNumber = orderNumber ev, d_checkoutUrl = url,
                        d_totalAmount = ?S\<rparr>"
    and k: "order_keys (store w') = order_keys (store w) @ [(?oid, ?S)]"
    by (auto simp: order_keys_def insert_order_def Let_def)
  have fresh: "map_of (order_keys (store w)) ?oid = None"
    using insertId_fresh [of "map order_id (orders (store w))"]
    by (simp add: order_keys_def map_of_eq_None_iff comp_def image_image)
  have now: "map_of (order_keys (store w')) ?oid = Some ?S"
    by (simp add: k fresh map_add_Some_iff)
  have "\<forall>ops. order_total_amount (store (fold run ops w')) ?oid = Some ?S"
    using map_of_prefix [OF keys_fold_run now] by (simp add: order_total_amount_def)
  with d show ?thesis by simp
qed

theorem total_amount_is_reservation_price_witness:
  "code (fst (createOrder ex_env 3 (ex_request [ex_item 1 1]) ex_world)) = 201 \<and>
   map price (ticket_tiers (store (fold run [OpCancelOrder 3 1, ex_price_change]
      (snd (createOrder ex_env 3 (ex_request [ex_item 1 1]) ex_world))))) = [9999, 2000] \<and>
   order_total_amount
     (store (fold run [OpCancelOrder 3 1, ex_price_change]
        (snd (createOrder ex_env 3 (ex_request [ex_item 1 1]) ex_world)))) 1 = Some 5000"
proof -
  let ?c = "createOrder ex_env 3 (ex_request [ex_item 1 1]) ex_world"
  have c: "code (fst ?c) = 201" by code_simp
  have d: "data (fst ?c) =
             Some \<lparr>d_orderId = 1, d_orderNumber = ''ORD-1000-abc'',
                   d_checkoutUrl = ''https://checkout.example/s1'', d_totalAmount = 5000\<rparr>"
    by code_simp
  have q: "map price (ticket_tiers (store (fold run [OpCancelOrder 3 1, ex_price_change]
             (snd ?c)))) = [9999, 2000]"
    by code_simp
  have p: "?c = (fst ?c, snd ?c)" by simp
  from total_amount_is_reservation_price [OF p c] d
  have "\<forall>ops. order_total_amount (store (fold run ops (snd ?c))) 1 = Some 5000"
    by auto
  with c q show ?thesis by blast
qed

end
